theory Spec2Isabelle
  imports Complex_Main "HOL-Library.Multiset" "HOL-Library.AList"
begin

section \<open>Python strings\<close>

text \<open>
  A Python \<open>str\<close> is a sequence of code points. The embedding covers the strings whose code
  points are below 256: a \<^typ>\<open>char\<close> is one code point (not a UTF-8 byte), so \<open>CHR 0xFC\<close>
  is the letter u-umlaut. In that range the decimal digits (\<open>\d\<close>, \<open>str.isdecimal\<close>) are
  \<open>0..9\<close>, and the white space of \<open>str.strip()\<close>, \<open>str.isspace\<close> and \<open>\s\<close> is
  \<open>\t \n \v \f \r\<close>, \<open>0x1c..0x1f\<close>, the blank, \<open>0x85\<close> and \<open>0xa0\<close>.
\<close>

definition is_space :: "char \<Rightarrow> bool" where
  "is_space c \<longleftrightarrow> (of_char c :: nat) \<in> {9, 10, 11, 12, 13, 28, 29, 30, 31, 32, 133, 160}"

definition is_digit :: "char \<Rightarrow> bool" where
  "is_digit c \<longleftrightarrow> 48 \<le> (of_char c :: nat) \<and> (of_char c :: nat) \<le> 57"

definition is_upper_az :: "char \<Rightarrow> bool" where
  "is_upper_az c \<longleftrightarrow> 65 \<le> (of_char c :: nat) \<and> (of_char c :: nat) \<le> 90"

definition is_lower_az :: "char \<Rightarrow> bool" where
  "is_lower_az c \<longleftrightarrow> 97 \<le> (of_char c :: nat) \<and> (of_char c :: nat) \<le> 122"

text \<open>\<open>[A-Za-z0-9]\<close>\<close>

definition is_alnum :: "char \<Rightarrow> bool" where
  "is_alnum c \<longleftrightarrow> is_upper_az c \<or> is_lower_az c \<or> is_digit c"

text \<open>
  \<open>str.lower()\<close> on one code point below 256: the letters \<open>A..Z\<close> and the accented
  capitals \<open>0xc0..0xde\<close> (without the multiplication sign \<open>0xd7\<close>) move up by 32.
\<close>

definition lower_char :: "char \<Rightarrow> char" where
  "lower_char c =
     (let n = (of_char c :: nat)
      in if (65 \<le> n \<and> n \<le> 90) \<or> (192 \<le> n \<and> n \<le> 222 \<and> n \<noteq> 215) then char_of (n + 32) else c)"

definition lower :: "string \<Rightarrow> string" where
  "lower s = map lower_char s"

text \<open>\<open>s.strip()\<close>, \<open>s.lstrip()\<close>\<close>

definition lstrip :: "string \<Rightarrow> string" where
  "lstrip s = dropWhile is_space s"

definition strip :: "string \<Rightarrow> string" where
  "strip s = rev (dropWhile is_space (rev (dropWhile is_space s)))"

text \<open>\<open>s.split(c)\<close> for a separator of one character: never an empty list.\<close>

fun split_on :: "char \<Rightarrow> string \<Rightarrow> string list" where
  "split_on sep [] = [[]]"
| "split_on sep (c # cs) =
     (if c = sep then [] # split_on sep cs
      else (case split_on sep cs of
              [] \<Rightarrow> [[c]]
            | w # ws \<Rightarrow> (c # w) # ws))"

text \<open>\<open>sep.join(xs)\<close>\<close>

fun join :: "string \<Rightarrow> string list \<Rightarrow> string" where
  "join sep [] = []"
| "join sep [x] = x"
| "join sep (x # y # ys) = x @ sep @ join sep (y # ys)"

text \<open>\<open>s.replace(c, r)\<close> for a pattern of one character.\<close>

definition replace_char :: "char \<Rightarrow> string \<Rightarrow> string \<Rightarrow> string" where
  "replace_char c r s = concat (map (\<lambda>x. if x = c then r else [x]) s)"

text \<open>\<open>int(s)\<close> on a string of decimal digits, and the printing of a natural number.\<close>

definition digit_val :: "char \<Rightarrow> nat" where
  "digit_val c = of_char c - 48"

definition nat_of_digits :: "string \<Rightarrow> nat" where
  "nat_of_digits s = foldl (\<lambda>a c. 10 * a + digit_val c) 0 s"

definition digit_char :: "nat \<Rightarrow> char" where
  "digit_char n = char_of (48 + n)"

fun show_nat :: "nat \<Rightarrow> string" where
  "show_nat n = (if n < 10 then [digit_char n] else show_nat (n div 10) @ [digit_char (n mod 10)])"

declare show_nat.simps [simp del]

text \<open>The format \<open>%0wd\<close> for a number that is not negative.\<close>

definition zfill :: "nat \<Rightarrow> nat \<Rightarrow> string" where
  "zfill w n = replicate (w - length (show_nat n)) (CHR ''0'') @ show_nat n"

text \<open>The exceptions of the source that the embedding tells apart.\<close>

datatype py_error = ValueError | TypeError | TransportError | OperationalError

section \<open>Locale normaliser\<close>

subsection \<open>Dates\<close>

text \<open>\<open>re.fullmatch(r"\d{4}-\d{2}-\d{2}", s)\<close>\<close>

fun match_iso_date :: "string \<Rightarrow> bool" where
  "match_iso_date [y1, y2, y3, y4, s1, m1, m2, s2, d1, d2] =
     (is_digit y1 \<and> is_digit y2 \<and> is_digit y3 \<and> is_digit y4 \<and> s1 = CHR ''-'' \<and>
      is_digit m1 \<and> is_digit m2 \<and> s2 = CHR ''-'' \<and> is_digit d1 \<and> is_digit d2)"
| "match_iso_date _ = False"

text \<open>\<open>\d{lo,hi}\<close> on a whole group.\<close>

definition digits_between :: "nat \<Rightarrow> nat \<Rightarrow> string \<Rightarrow> bool" where
  "digits_between lo hi s \<longleftrightarrow> lo \<le> length s \<and> length s \<le> hi \<and> list_all is_digit s"

text \<open>
  \<open>re.fullmatch(r"(\d{1,2})\.(\d{1,2})\.(\d{4})", s)\<close> followed by
  \<open>map(int, m.groups())\<close>: the groups hold no dot, so they are the three fields between the
  dots. The result is (day, month, year).
\<close>

definition match_de_date :: "string \<Rightarrow> (nat \<times> nat \<times> nat) option" where
  "match_de_date s =
     (case split_on (CHR ''.'') s of
        [d, mo, y] \<Rightarrow>
          if digits_between 1 2 d \<and> digits_between 1 2 mo \<and> digits_between 4 4 y
          then Some (nat_of_digits d, nat_of_digits mo, nat_of_digits y)
          else None
      | _ \<Rightarrow> None)"

text \<open>\<open>(\d{1,2}):(\d{2}):(\d{2})\<close> on a whole string.\<close>

definition match_time :: "string \<Rightarrow> (nat \<times> nat \<times> nat) option" where
  "match_time s =
     (case split_on (CHR '':'') s of
        [hh, mm, ss] \<Rightarrow>
          if digits_between 1 2 hh \<and> digits_between 2 2 mm \<and> digits_between 2 2 ss
          then Some (nat_of_digits hh, nat_of_digits mm, nat_of_digits ss)
          else None
      | _ \<Rightarrow> None)"

text \<open>
  \<open>re.fullmatch(r"(\d{1,2})\.(\d{1,2})\.(\d{4})\s+(\d{1,2}):(\d{2}):(\d{2})", s)\<close>: the date
  holds no white space and the time starts with a digit, so the date is the text before the first
  white space and the time is the text after the run of white space that follows it.
\<close>

definition match_de_datetime :: "string \<Rightarrow> ((nat \<times> nat \<times> nat) \<times> (nat \<times> nat \<times> nat)) option" where
  "match_de_datetime s =
     (let date_part = takeWhile (\<lambda>c. \<not> is_space c) s;
          rest = dropWhile (\<lambda>c. \<not> is_space c) s
      in if rest = [] then None
         else (case match_de_date date_part of
                 None \<Rightarrow> None
               | Some dmy \<Rightarrow>
                   (case match_time (dropWhile is_space rest) of
                      None \<Rightarrow> None
                    | Some hms \<Rightarrow> Some (dmy, hms))))"

text \<open>\<open>datetime.date(y, mo, d)\<close> and \<open>datetime.datetime(y, mo, d, hh, mm, ss)\<close>.\<close>

definition is_leap :: "nat \<Rightarrow> bool" where
  "is_leap y \<longleftrightarrow> y mod 4 = 0 \<and> (y mod 100 \<noteq> 0 \<or> y mod 400 = 0)"

definition days_in_month :: "nat \<Rightarrow> nat \<Rightarrow> nat" where
  "days_in_month y mo =
     (if mo = 2 then (if is_leap y then 29 else 28)
      else if mo = 4 \<or> mo = 6 \<or> mo = 9 \<or> mo = 11 then 30 else 31)"

definition valid_date :: "nat \<Rightarrow> nat \<Rightarrow> nat \<Rightarrow> bool" where
  "valid_date y mo d \<longleftrightarrow>
     1 \<le> y \<and> y \<le> 9999 \<and> 1 \<le> mo \<and> mo \<le> 12 \<and> 1 \<le> d \<and> d \<le> days_in_month y mo"

definition valid_time :: "nat \<Rightarrow> nat \<Rightarrow> nat \<Rightarrow> bool" where
  "valid_time hh mm ss \<longleftrightarrow> hh \<le> 23 \<and> mm \<le> 59 \<and> ss \<le> 59"

record py_date =
  year :: nat
  month :: nat
  day :: nat

record py_datetime = py_date +
  hour :: nat
  minute :: nat
  second :: nat

definition date_new :: "nat \<Rightarrow> nat \<Rightarrow> nat \<Rightarrow> py_error + py_date" where
  "date_new y mo d =
     (if valid_date y mo d then Inr \<lparr>year = y, month = mo, day = d\<rparr> else Inl ValueError)"

definition datetime_new :: "nat \<Rightarrow> nat \<Rightarrow> nat \<Rightarrow> nat \<Rightarrow> nat \<Rightarrow> nat \<Rightarrow> py_error + py_datetime" where
  "datetime_new y mo d hh mm ss =
     (if valid_date y mo d \<and> valid_time hh mm ss
      then Inr \<lparr>year = y, month = mo, day = d, hour = hh, minute = mm, second = ss\<rparr>
      else Inl ValueError)"

text \<open>\<open>date.isoformat()\<close> and \<open>datetime.isoformat(timespec="seconds")\<close>.\<close>

definition date_isoformat :: "'a py_date_scheme \<Rightarrow> string" where
  "date_isoformat dt = zfill 4 (year dt) @ ''-'' @ zfill 2 (month dt) @ ''-'' @ zfill 2 (day dt)"

definition datetime_isoformat :: "py_datetime \<Rightarrow> string" where
  "datetime_isoformat dt =
     date_isoformat dt @ ''T'' @ zfill 2 (hour dt) @ '':'' @ zfill 2 (minute dt) @ '':'' @
     zfill 2 (second dt)"

text \<open>
  \<open>_parse_german_date_or_datetime\<close>. Both \<open>try\<close> blocks turn the \<open>ValueError\<close> of an
  impossible date into \<open>(None, None)\<close>.
\<close>

definition parse_german_date_or_datetime :: "string \<Rightarrow> string option \<times> string option" where
  "parse_german_date_or_datetime s0 =
     (if s0 = [] then (None, None)
      else
        let s = strip s0 in
        if match_iso_date s then (Some s, None)
        else (case match_de_date s of
                Some (d, mo, y) \<Rightarrow>
                  (case date_new y mo d of
                     Inr dt \<Rightarrow> (Some (date_isoformat dt), None)
                   | Inl e \<Rightarrow> (None, None))
              | None \<Rightarrow>
                  (case match_de_datetime s of
                     Some ((d, mo, y), (hh, mm, ss)) \<Rightarrow>
                       (case datetime_new y mo d hh mm ss of
                          Inr dt \<Rightarrow> (Some (date_isoformat dt), Some (datetime_isoformat dt))
                        | Inl e \<Rightarrow> (None, None))
                   | None \<Rightarrow> (None, None))))"

subsection \<open>Decimal numbers\<close>

text \<open>
  A Python \<open>float\<close>. A finite float is carried as the exact number that the decimal text
  denotes; the rounding of that number to the nearest binary64 value, the overflow of a huge
  exponent to infinity and the sign of zero are not part of the embedding. The flag of
  \<open>Infinity\<close> is true for the negative one.
\<close>

datatype pyfloat = Finite rat | Infinity bool | NaN

text \<open>
  The text that \<open>float(s)\<close> accepts, after it has stripped white space (Python language
  reference, \<open>float\<close>):
  \<^verbatim>\<open>
  sign        ::= "+" | "-"
  infinity    ::= "Infinity" | "inf"
  nan         ::= "nan"
  digitpart   ::= digit (["_"] digit)*
  number      ::= [digitpart] "." digitpart | digitpart ["."]
  exponent    ::= ("e" | "E") [sign] digitpart
  floatnumber ::= number [exponent]
  floatvalue  ::= [sign] (floatnumber | infinity | nan)
  \<close>
  where the case of \<open>infinity\<close> and \<open>nan\<close> does not matter.
\<close>

fun digitpart :: "string \<Rightarrow> bool" where
  "digitpart [] = False"
| "digitpart [c] = is_digit c"
| "digitpart (c # d # cs) =
     (is_digit c \<and> (if d = CHR ''_'' then digitpart cs else digitpart (d # cs)))"

definition digits_value :: "string \<Rightarrow> nat" where
  "digits_value s = nat_of_digits (filter (\<lambda>c. c \<noteq> CHR ''_'') s)"

definition split_sign :: "string \<Rightarrow> bool \<times> string" where
  "split_sign s =
     (case s of
        [] \<Rightarrow> (False, [])
      | c # cs \<Rightarrow>
          if c = CHR ''-'' then (True, cs) else if c = CHR ''+'' then (False, cs) else (False, s))"

text \<open>\<open>number\<close>: the digits before and after the point.\<close>

definition parse_number :: "string \<Rightarrow> (string \<times> string) option" where
  "parse_number s =
     (let ip = takeWhile (\<lambda>c. c \<noteq> CHR ''.'') s;
          r = dropWhile (\<lambda>c. c \<noteq> CHR ''.'') s
      in if r = [] \<or> tl r = [] then (if digitpart ip then Some (ip, []) else None)
         else if digitpart (tl r) \<and> (ip = [] \<or> digitpart ip) then Some (ip, tl r)
         else None)"

text \<open>\<open>exponent\<close>, without its letter.\<close>

definition parse_exponent :: "string \<Rightarrow> int option" where
  "parse_exponent s =
     (case split_sign s of
        (neg, ds) \<Rightarrow>
          if digitpart ds
          then Some (if neg then - int (digits_value ds) else int (digits_value ds))
          else None)"

definition is_exp_char :: "char \<Rightarrow> bool" where
  "is_exp_char c \<longleftrightarrow> c = CHR ''e'' \<or> c = CHR ''E''"

definition scale10 :: "rat \<Rightarrow> int \<Rightarrow> rat" where
  "scale10 x e = (if 0 \<le> e then x * 10 ^ nat e else x / 10 ^ nat (- e))"

text \<open>\<open>float(s)\<close> for a string \<open>s\<close>; the failure is Python's \<open>ValueError\<close>.\<close>

definition py_float :: "string \<Rightarrow> py_error + pyfloat" where
  "py_float s0 =
     (case split_sign (strip s0) of
        (neg, body) \<Rightarrow>
          if lower body = ''inf'' \<or> lower body = ''infinity'' then Inr (Infinity neg)
          else if lower body = ''nan'' then Inr NaN
          else
            let mant = takeWhile (\<lambda>c. \<not> is_exp_char c) body;
                rest = dropWhile (\<lambda>c. \<not> is_exp_char c) body
            in (case parse_number mant of
                  None \<Rightarrow> Inl ValueError
                | Some (ip, fp) \<Rightarrow>
                    (case (if rest = [] then Some 0 else parse_exponent (tl rest)) of
                       None \<Rightarrow> Inl ValueError
                     | Some e \<Rightarrow>
                         let m = of_nat (digits_value (ip @ fp));
                             k = int (length (filter (\<lambda>c. c \<noteq> CHR ''_'') fp))
                         in Inr (Finite (scale10 (if neg then - m else m) (e - k))))))"

text \<open>
  \<open>_to_float_de\<close>: the dots go, the commas become points, and \<open>float\<close> decides; its
  \<open>ValueError\<close> is caught.
\<close>

definition to_float_de :: "string \<Rightarrow> pyfloat option" where
  "to_float_de s =
     (let t = strip s
      in if t = [] then None
         else (case py_float (replace_char (CHR '','') ''.'' (replace_char (CHR ''.'') [] t)) of
                 Inr x \<Rightarrow> Some x
               | Inl e \<Rightarrow> None))"

section \<open>Python values and dictionaries\<close>

text \<open>
  The values of a project summary as \<open>json.loads\<close> delivers them: \<open>null\<close>, booleans,
  integers and strings. Floats, lists and nested objects are outside the embedding, and so is the
  limit that recent interpreters put on the number of digits that \<open>int\<close> and \<open>str\<close> convert.
\<close>

datatype pyval = PNone | PBool bool | PInt int | PStr string

text \<open>
  A \<open>dict\<close> with string keys, in insertion order. \<open>d.get(k)\<close> is \<open>dict_get\<close>,
  \<open>d[k] = v\<close> is \<open>dict_set\<close>: an old key keeps its place, a new one goes to the end.
\<close>

type_synonym 'v dict = "(string \<times> 'v) list"

definition dict_get :: "'v dict \<Rightarrow> string \<Rightarrow> 'v option" where
  "dict_get d k = map_of d k"

definition dict_set :: "string \<Rightarrow> 'v \<Rightarrow> 'v dict \<Rightarrow> 'v dict" where
  "dict_set k v d = AList.update k v d"

text \<open>\<open>proj.get(k)\<close> where a missing key gives \<open>None\<close>.\<close>

definition get_or_none :: "pyval dict \<Rightarrow> string \<Rightarrow> pyval" where
  "get_or_none d k = (case dict_get d k of None \<Rightarrow> PNone | Some v \<Rightarrow> v)"

text \<open>\<open>bool(x)\<close>, \<open>x or y\<close>, \<open>str(x)\<close> and \<open>int(x)\<close>.\<close>

fun truthy :: "pyval \<Rightarrow> bool" where
  "truthy PNone = False"
| "truthy (PBool b) = b"
| "truthy (PInt n) = (n \<noteq> 0)"
| "truthy (PStr s) = (s \<noteq> [])"

definition val_or :: "pyval \<Rightarrow> pyval \<Rightarrow> pyval" where
  "val_or x y = (if truthy x then x else y)"

definition show_int :: "int \<Rightarrow> string" where
  "show_int n = (if n < 0 then CHR ''-'' # show_nat (nat (- n)) else show_nat (nat n))"

fun py_str :: "pyval \<Rightarrow> string" where
  "py_str PNone = ''None''"
| "py_str (PBool b) = (if b then ''True'' else ''False'')"
| "py_str (PInt n) = show_int n"
| "py_str (PStr s) = s"

text \<open>\<open>int(s)\<close> for a string: white space is stripped, then \<open>[sign] digitpart\<close>.\<close>

definition int_of_str :: "string \<Rightarrow> py_error + int" where
  "int_of_str s =
     (case split_sign (strip s) of
        (neg, ds) \<Rightarrow>
          if digitpart ds
          then Inr (if neg then - int (digits_value ds) else int (digits_value ds))
          else Inl ValueError)"

fun py_int :: "pyval \<Rightarrow> py_error + int" where
  "py_int PNone = Inl TypeError"
| "py_int (PBool b) = Inr (if b then 1 else 0)"
| "py_int (PInt n) = Inr n"
| "py_int (PStr s) = int_of_str s"

text \<open>\<open>a or b\<close> where \<open>a\<close> is a string or \<open>None\<close> and \<open>b\<close> is a string.\<close>

definition str_or :: "string option \<Rightarrow> string \<Rightarrow> string" where
  "str_or a b = (case a of None \<Rightarrow> b | Some s \<Rightarrow> if s \<noteq> [] then s else b)"

text \<open>\<open>s.startswith(p)\<close> and \<open>p in s\<close>.\<close>

fun starts_with :: "string \<Rightarrow> string \<Rightarrow> bool" where
  "starts_with s [] = True"
| "starts_with [] (p # ps) = False"
| "starts_with (c # cs) (p # ps) = (c = p \<and> starts_with cs ps)"

fun contains :: "string \<Rightarrow> string \<Rightarrow> bool" where
  "contains [] p = (p = [])"
| "contains (c # cs) p = (starts_with (c # cs) p \<or> contains cs p)"

section \<open>Domain field mapper\<close>

text \<open>
  \<open>parse_station\<close>: \<open>re.fullmatch(r"(\d+)\@([a-zA-Z_]+)", str(s).strip())\<close>. Neither group
  holds the sign \<open>@\<close>, so the groups are the two fields around it.
\<close>

definition is_word_char :: "char \<Rightarrow> bool" where
  "is_word_char c \<longleftrightarrow> is_lower_az c \<or> is_upper_az c \<or> c = CHR ''_''"

definition parse_station :: "string \<Rightarrow> int option \<times> string option" where
  "parse_station s =
     (if s = [] then (None, None)
      else (case split_on (CHR ''@'') (strip s) of
              [a, b] \<Rightarrow>
                if a \<noteq> [] \<and> list_all is_digit a \<and> b \<noteq> [] \<and> list_all is_word_char b
                then (Some (int (nat_of_digits a)), Some (lower b))
                else (None, None)
            | _ \<Rightarrow> (None, None)))"

text \<open>
  The two searches of the missing-parts heuristics, both with \<open>re.IGNORECASE\<close>:
  \<open>(ohne e-?teile)\<close> and
  \<open>(fehlt|offen|r\"uckstand|wartet|nicht.*da|backorder|unvollst\"andig)\<close>. The dot matches
  every character but the line feed.
\<close>

definition re_ohne_eteile :: "string \<Rightarrow> bool" where
  "re_ohne_eteile s \<longleftrightarrow>
     contains (lower s) ''ohne e-teile'' \<or> contains (lower s) ''ohne eteile''"

text \<open>\<open>nicht.*w\<close> for a literal \<open>w\<close>, on lower case.\<close>

fun nicht_then :: "string \<Rightarrow> string \<Rightarrow> bool" where
  "nicht_then w [] = False"
| "nicht_then w (c # cs) =
     ((starts_with (c # cs) ''nicht'' \<and>
       contains (takeWhile (\<lambda>x. x \<noteq> CHR 0x0A) (drop 5 (c # cs))) w) \<or>
      nicht_then w cs)"

definition re_missing_status :: "string \<Rightarrow> bool" where
  "re_missing_status s \<longleftrightarrow>
     (let t = lower s
      in contains t ''fehlt'' \<or> contains t ''offen'' \<or>
         contains t (''r'' @ [CHR 0xFC] @ ''ckstand'') \<or> contains t ''wartet'' \<or>
         nicht_then ''da'' t \<or> contains t ''backorder'' \<or>
         contains t (''unvollst'' @ [CHR 0xE4] @ ''ndig''))"

text \<open>A JSON document, as \<open>json.dumps\<close> receives it.\<close>

datatype json = JNull | JBool bool | JInt int | JStr string | JList "json list"
  | JObj "(string \<times> json) list"

text \<open>
  One parsed part, a \<open>dict\<close> with fixed keys. A key that is missing or holds \<open>None\<close> is
  \<open>None\<close> here; the flags hold the truth value of their entries; \<open>raw\<close> is the raw row.
\<close>

record part =
  part_no :: "string option"
  description :: "string option"
  lead_no :: "string option"
  order_no :: "string option"
  row_id :: "string option"
  part_id :: "string option"
  qty :: "pyfloat option"
  price_each :: "pyfloat option"
  price_total :: "pyfloat option"
  status :: "string option"
  status_code :: "string option"
  status_icon :: "string option"
  order_date :: "string option"
  delivery_date :: "string option"
  eta_date :: "string option"
  is_missing :: bool
  is_to_order :: bool
  is_ordered :: bool
  is_delivered :: bool
  is_backorder :: bool
  is_mandatory :: bool
  is_price_checked :: bool
  raw :: json

text \<open>\<open>_extract_vehicle_info\<close>\<close>

definition vehicle_mapping :: "(string \<times> string) list" where
  "vehicle_mapping =
     [(''VIN'', ''vin''), (''KBA'', ''kba''), (''Farbe Nummer'', ''color_code''),
      (''Farbton'', ''color_name''), (''Kennzeichen'', ''plate''),
      (''Kilometerstand'', ''mileage''), (''Fahrzeug'', ''vehicle''), (''Klasse'', ''class''),
      (''Leasing/Flotte'', ''leasing'')]"

definition meta_default :: "string dict \<Rightarrow> string \<Rightarrow> string \<Rightarrow> string dict \<Rightarrow> string dict" where
  "meta_default parts_meta attr key out =
     (if str_or (dict_get parts_meta attr) [] \<noteq> [] \<and> dict_get out key = None
      then dict_set key (str_or (dict_get parts_meta attr) []) out
      else out)"

definition extract_vehicle_info :: "string dict \<Rightarrow> string dict option \<Rightarrow> string dict" where
  "extract_vehicle_info visual_fields parts_meta =
     (let out = foldl (\<lambda>out (label, key).
                         let val = str_or (dict_get visual_fields label) []
                         in if val \<noteq> [] then dict_set key val out else out)
                  [] vehicle_mapping
      in case parts_meta of
           None \<Rightarrow> out
         | Some m \<Rightarrow>
             if m = [] then out
             else meta_default m ''data-pnum'' ''order_no''
                    (meta_default m ''data-number_plate'' ''plate''
                       (meta_default m ''data-make'' ''make''
                          (meta_default m ''data-vin'' ''vin'' out))))"

text \<open>
  The row of the table \<open>orders\<close>. \<open>fields_json\<close> and \<open>vehicle_json\<close> hold the dictionaries
  that \<open>json.dumps\<close> writes out.
\<close>

record order_row =
  id' :: int
  short_name :: string
  plate :: string
  person :: string
  phone :: string
  email :: string
  damage :: string
  project_status :: string
  station_id :: "int option"
  station_state :: "string option"
  shop_date :: string
  repair_date :: string
  finish_date :: string
  planned_delivery_date :: string
  parts_status :: string
  missing_parts :: int
  est_hours_karo :: "pyfloat option"
  est_hours_lack :: "pyfloat option"
  est_hours_mech :: "pyfloat option"
  fields_json :: "string dict"
  vehicle_json :: "string dict"
  last_synced_at :: string

text \<open>The date columns: the ISO date when the field parses, else the field as it is.\<close>

definition date_or_text :: "string option \<Rightarrow> string" where
  "date_or_text v = str_or (fst (parse_german_date_or_datetime (str_or v []))) (str_or v [])"

text \<open>The missing-parts flag of \<open>build_order_row\<close>.\<close>

definition missing_parts_flag :: "string \<Rightarrow> part list option \<Rightarrow> int" where
  "missing_parts_flag parts_status_final parts_list =
     (let missing_parts = (if re_ohne_eteile parts_status_final then 0
                           else if re_missing_status parts_status_final then 1
                           else 0)
      in case parts_list of
           None \<Rightarrow> missing_parts
         | Some ps \<Rightarrow> if ps \<noteq> [] \<and> list_ex is_missing ps then 1 else missing_parts)"

text \<open>
  \<open>build_order_row\<close>. \<open>now\<close> is the reading of the clock by \<open>_now_iso()\<close>. The only
  statement that can raise is \<open>int(proj.get("ID"))\<close>, the first one.
\<close>

definition build_order_row ::
  "pyval dict \<Rightarrow> string dict \<Rightarrow> string \<Rightarrow> part list option \<Rightarrow> string dict option \<Rightarrow> string \<Rightarrow>
     py_error + order_row" where
  "build_order_row proj visual_fields parts_status_arg parts_list parts_meta now =
     (case py_int (get_or_none proj ''ID'') of
        Inl e \<Rightarrow> Inl e
      | Inr pid \<Rightarrow>
          let short_name = strip (py_str (val_or (get_or_none proj ''short_name'') (PStr [])));
              station = parse_station (py_str (val_or (get_or_none proj ''station'') (PStr [])));
              vf = dict_get visual_fields;
              eparts_status = str_or (vf ''E-Teile Status'') [];
              parts_status_final = (if parts_status_arg \<noteq> [] then parts_status_arg else eparts_status)
          in Inr \<lparr>
               id' = pid,
               short_name = short_name,
               plate = str_or (vf ''Kennzeichen'') (str_or (vf ''Fahrzeug'') short_name),
               person = str_or (vf ''Fahrername'') (str_or (vf ''Halter'') []),
               phone = str_or (vf ''Telefon'') (str_or (vf ''Telefonnummer'') []),
               email = str_or (vf ''Kunden E-Mail'') (str_or (vf ''E-Mail'') []),
               damage = str_or (vf ''Kategorie'') (str_or (vf ''Damage'')
                          (py_str (val_or (get_or_none proj ''finish_date'') (PStr [])))),
               project_status = str_or (vf ''Projekt-Status'') [],
               station_id = fst station,
               station_state = snd station,
               shop_date = date_or_text (vf ''Werkstattstart''),
               repair_date =
                 str_or (fst (parse_german_date_or_datetime
                   (str_or (vf ''Fahrzeugeingang (Soll)'') (str_or (vf ''Fahrzeugeingang (Ist)'') []))))
                   [],
               finish_date = date_or_text (vf ''Termin Fertigstellung''),
               planned_delivery_date = date_or_text (vf ''Plan Auslieferung''),
               parts_status = parts_status_final,
               missing_parts = missing_parts_flag parts_status_final parts_list,
               est_hours_karo = to_float_de (str_or (vf ''Sollstunden Karo'') []),
               est_hours_lack = to_float_de (str_or (vf ''Sollstunden Lack'') []),
               est_hours_mech = to_float_de (str_or (vf ''Sollstunden Mech'') []),
               fields_json = visual_fields,
               vehicle_json = extract_vehicle_info visual_fields parts_meta,
               last_synced_at = now
             \<rparr>)"

section \<open>Parts-table sub-parser\<close>

text \<open>
  \<open>_parse_parts_from_html\<close> scans the fragment with BeautifulSoup or with regular
  expressions. The scan itself is outside the embedding; its outcome is the input here:
  whether BeautifulSoup is there, the rows that the first path appends from the PlanSo parts
  table together with the table's \<open>data-\<close> attributes, the rows of the generic tables as
  dictionaries from header (or \<open>col_i\<close>) to cell, and the values of the attributes
  \<open>data-part\<close>, \<open>data-partno\<close> and \<open>data-part_no\<close> in document order.
\<close>

record parts_scan =
  bs4 :: bool
  table_rows :: "part list"
  table_meta :: "string dict"
  generic_rows :: "string dict list"
  attr_matches :: "string list"

text \<open>\<open>(offen|fehlt|r\"uckstand|backorder|nicht.*gelief)\<close> with \<open>re.IGNORECASE\<close>.\<close>

definition re_missing_generic :: "string \<Rightarrow> bool" where
  "re_missing_generic s \<longleftrightarrow>
     (let t = lower s
      in contains t ''offen'' \<or> contains t ''fehlt'' \<or>
         contains t (''r'' @ [CHR 0xFC] @ ''ckstand'') \<or> contains t ''backorder'' \<or>
         nicht_then ''gelief'' t)"

text \<open>The second path: one row of a generic table; \<open>None\<close> when the row is skipped.\<close>

definition generic_part :: "string dict \<Rightarrow> part option" where
  "generic_part row =
     (let g = dict_get row;
          pno = str_or (g ''Teilenummer'') (str_or (g ''Teile-Nr.'') (str_or (g ''Teilenr.'')
                  (str_or (g ''Part'') (str_or (g ''col_0'') []))));
          desc = str_or (g ''Bezeichnung'') (str_or (g ''Beschreibung'')
                   (str_or (g ''Description'') (str_or (g ''col_1'') [])));
          q = to_float_de (str_or (g ''Menge'') (str_or (g ''Qty'') (str_or (g ''col_2'') [])));
          st = str_or (g ''Status'') (str_or (g ''col_3'') []);
          dd = str_or (g ''Lieferdatum'') (str_or (g ''Geliefert'') (str_or (g ''Delivery'') []));
          eta = str_or (g ''ETA'') (str_or (g ''Liefertermin'') [])
      in if pno \<noteq> [] \<or> desc \<noteq> []
         then Some \<lparr>
           part_no = Some pno, description = Some desc, lead_no = Some [], order_no = Some [],
           row_id = Some [], part_id = Some [], qty = q, price_each = None, price_total = None,
           status = Some st, status_code = Some [], status_icon = Some [], order_date = Some [],
           delivery_date = Some (str_or (fst (parse_german_date_or_datetime dd)) dd),
           eta_date = Some (str_or (fst (parse_german_date_or_datetime eta)) eta),
           is_missing = re_missing_generic st, is_to_order = False, is_ordered = False,
           is_delivered = False, is_backorder = False, is_mandatory = False,
           is_price_checked = False, raw = JObj (map (\<lambda>(k, v). (k, JStr v)) row)\<rparr>
         else None)"

text \<open>The third path: one attribute value.\<close>

definition attr_part :: "string \<Rightarrow> part" where
  "attr_part pno =
     \<lparr>part_no = Some pno, description = Some [], lead_no = Some [], order_no = Some [],
      row_id = Some [], part_id = Some [], qty = None, price_each = None, price_total = None,
      status = Some [], status_code = Some [], status_icon = Some [], order_date = Some [],
      delivery_date = Some [], eta_date = Some [],
      is_missing = False, is_to_order = False, is_ordered = False, is_delivered = False,
      is_backorder = False, is_mandatory = False, is_price_checked = False, raw = JObj []\<rparr>"

text \<open>The key \<open>(p.get("part_no") or "", p.get("description") or "")\<close>.\<close>

definition part_key :: "part \<Rightarrow> string \<times> string" where
  "part_key p = (str_or (part_no p) [], str_or (description p) [])"

text \<open>
  The loop \<open>for p in parts: ... if key not in uniq: uniq[key] = p\<close> of the first path,
  followed by \<open>list(uniq.values())\<close>.
\<close>

definition uniq_first :: "part list \<Rightarrow> part list" where
  "uniq_first parts =
     map snd (foldl (\<lambda>uniq p. if map_of uniq (part_key p) = None
                                then uniq @ [(part_key p, p)] else uniq) [] parts)"

text \<open>
  The comprehension \<open>{(...): p for p in parts}\<close> at the end: every row is stored under its
  key, so a later row replaces an earlier one, in the earlier one's place.
\<close>

definition uniq_last :: "part list \<Rightarrow> part list" where
  "uniq_last parts = map snd (foldl (\<lambda>uniq p. AList.update (part_key p) p uniq) [] parts)"

definition parse_parts_from_html :: "parts_scan \<Rightarrow> part list \<times> string dict" where
  "parse_parts_from_html scan =
     (if table_rows scan \<noteq> [] then (uniq_first (table_rows scan), table_meta scan)
      else
        let parts = (if bs4 scan then List.map_filter generic_part (generic_rows scan) else []);
            parts = (if parts = [] then map attr_part (attr_matches scan) else parts)
        in (uniq_last parts, table_meta scan))"

section \<open>Fragment parser: label and value pairs\<close>





text \<open>
  The extractors walk over the labels that a regular expression or BeautifulSoup finds in the
  fragment. The search itself is outside the embedding: the functions below take the
  occurrences in document order, each with the pieces that the loop body reads.
\<close>

subsection \<open>\<open>parse_visual_forms_plain_fields\<close>\<close>












subsection \<open>\<open>_parse_html_label_value_pairs\<close>\<close>










section \<open>Persistence layer\<close>

text \<open>
  The tables of \<open>SCHEMA_SQL\<close> as lists of rows in the order of insertion. A row of
  \<open>parts\<close> is the order's identifier and the columns of the part; a row of
  \<open>order_sections\<close> is a section payload with the order's identifier, the name of the section
  and the time of the write. The table \<open>employees\<close> maps an identifier to a name.
\<close>

record parts_row =
  part_order_id :: int
  part_cols :: part

record section_payload =
  content_type :: string
  raw_text :: string
  data_json :: "(string \<times> json) list"

record section_row = section_payload +
  section_order_id :: int
  section_name :: string
  section_synced_at :: string

record database =
  orders :: "order_row list"
  employees :: "string dict"
  parts :: "parts_row list"
  order_sections :: "section_row list"

text \<open>The primary keys \<open>(order_id, part_no, description)\<close> and \<open>(order_id, section)\<close>.\<close>

definition parts_key :: "parts_row \<Rightarrow> int \<times> string \<times> string" where
  "parts_key r =
     (part_order_id r, str_or (part_no (part_cols r)) [], str_or (description (part_cols r)) [])"

definition section_key :: "section_row \<Rightarrow> int \<times> string" where
  "section_key r = (section_order_id r, section_name r)"

text \<open>
  \<open>INSERT OR REPLACE\<close>: the rows that hold the key of the new row are deleted, then the new
  row is inserted.
\<close>

definition insert_or_replace :: "('r \<Rightarrow> 'k) \<Rightarrow> 'r list \<Rightarrow> 'r \<Rightarrow> 'r list" where
  "insert_or_replace key tbl r = filter (\<lambda>x. key x \<noteq> key r) tbl @ [r]"

text \<open>
  \<open>db_upsert_order\<close>: \<open>INSERT ... ON CONFLICT(id) DO UPDATE SET\<close> every other column. The
  row holds all columns, so a row with the same identifier is overwritten in its place.
\<close>

definition db_upsert_order :: "database \<Rightarrow> order_row \<Rightarrow> database" where
  "db_upsert_order con row =
     con\<lparr>orders :=
       (if id' row \<in> set (map id' (orders con))
        then map (\<lambda>r. if id' r = id' row then row else r) (orders con)
        else orders con @ [row])\<rparr>"

text \<open>\<open>db_upsert_employees\<close>\<close>

definition db_upsert_employees :: "database \<Rightarrow> string dict \<Rightarrow> database" where
  "db_upsert_employees con emp =
     con\<lparr>employees := foldl (\<lambda>tbl (k, v). AList.update k v tbl) (employees con) emp\<rparr>"

text \<open>
  \<open>db_replace_parts\<close>: \<open>DELETE FROM parts WHERE order_id=?\<close>, then one
  \<open>INSERT OR REPLACE\<close> for each part, with \<open>p.get("part_no") or ""\<close> and
  \<open>p.get("description") or ""\<close> in the key columns.
\<close>

definition parts_row_of :: "int \<Rightarrow> part \<Rightarrow> parts_row" where
  "parts_row_of order_id p =
     \<lparr>part_order_id = order_id,
      part_cols = p\<lparr>part_no := Some (str_or (part_no p) []),
                     description := Some (str_or (description p) [])\<rparr>\<rparr>"

definition db_replace_parts :: "database \<Rightarrow> int \<Rightarrow> part list \<Rightarrow> database" where
  "db_replace_parts con order_id ps =
     con\<lparr>parts :=
       foldl (\<lambda>tbl p. insert_or_replace parts_key tbl (parts_row_of order_id p))
         (filter (\<lambda>r. part_order_id r \<noteq> order_id) (parts con)) ps\<rparr>"

text \<open>
  \<open>db_upsert_sections\<close>: one \<open>INSERT OR REPLACE\<close> for each section of the dictionary, and
  no \<open>DELETE\<close>. \<open>now\<close> is the reading of the clock.
\<close>

definition section_row_of :: "int \<Rightarrow> string \<Rightarrow> section_payload \<Rightarrow> string \<Rightarrow> section_row" where
  "section_row_of order_id name payload now =
     \<lparr>content_type = content_type payload, raw_text = raw_text payload,
      data_json = data_json payload,
      section_order_id = order_id, section_name = name, section_synced_at = now\<rparr>"

definition db_upsert_sections ::
  "database \<Rightarrow> int \<Rightarrow> section_payload dict \<Rightarrow> string \<Rightarrow> database" where
  "db_upsert_sections con order_id sections now =
     con\<lparr>order_sections :=
       foldl (\<lambda>tbl (name, payload).
                insert_or_replace section_key tbl (section_row_of order_id name payload now))
         (order_sections con) sections\<rparr>"

section \<open>Sync orchestrator\<close>

text \<open>
  One record of a run: the project summary, the outcome of the requests and parsers that
  \<open>sync_one\<close> runs for it (an exception raised by a fetch, or what they deliver), and the
  readings of the clock when the row is built and when the sections are stored. The network is
  outside the embedding.
\<close>

record fetched =
  fetched_emp_map :: "string dict"
  fetched_fields :: "string dict"
  fetched_warn :: string
  fetched_parts_status :: string
  fetched_parts_list :: "part list"
  fetched_parts_meta :: "string dict"
  fetched_sections :: "section_payload dict"

record job =
  job_proj :: "pyval dict"
  job_outcome :: "py_error + fetched"
  row_time :: string
  store_time :: string

record sync_args =
  with_parts :: bool
  full :: bool
  jobs :: int

text \<open>The dictionary that \<open>sync_one\<close> returns.\<close>

datatype sync_result =
  Sync_Ok int string order_row "string dict" "part list" "section_payload dict" string
| Sync_Fail int string py_error

text \<open>
  \<open>sync_one\<close>. The conversion of the \<open>ID\<close> stands before the \<open>try\<close>, so its error leaves
  \<open>sync_one\<close>; every exception behind it is caught and gives the result of a failure.
\<close>

definition sync_one :: "sync_args \<Rightarrow> job \<Rightarrow> py_error + sync_result" where
  "sync_one args j =
     (case py_int (get_or_none (job_proj j) ''ID'') of
        Inl e \<Rightarrow> Inl e
      | Inr pid \<Rightarrow>
          let sname = py_str (case dict_get (job_proj j) ''short_name'' of
                                None \<Rightarrow> PStr [] | Some v \<Rightarrow> v)
          in (case job_outcome j of
                Inl e \<Rightarrow> Inr (Sync_Fail pid sname e)
              | Inr f \<Rightarrow>
                  let deep = (with_parts args \<or> full args);
                      pstatus = (if deep then fetched_parts_status f else []);
                      parts_list = (if deep then fetched_parts_list f else []);
                      parts_meta = (if deep then fetched_parts_meta f else []);
                      sections = (if full args then fetched_sections f else [])
                  in (case build_order_row (job_proj j) (fetched_fields f) pstatus (Some parts_list)
                             (Some parts_meta) (row_time j) of
                        Inl e \<Rightarrow> Inr (Sync_Fail pid sname e)
                      | Inr row \<Rightarrow>
                          Inr (Sync_Ok pid sname row (fetched_emp_map f) parts_list sections
                                 (fetched_warn f)))))"





section \<open>Query engine\<close>

text \<open>
  \<open>re.findall(r"[A-Za-z0-9]+(?:-[A-Za-z0-9]+)*", raw)\<close>, as a scan from left to right.
  \<open>cur\<close> is the token that is being read; a hyphen goes on with the token when a token is
  being read and a letter or digit follows, and ends it otherwise.
\<close>

fun scan_tokens :: "string \<Rightarrow> string \<Rightarrow> string list" where
  "scan_tokens cur [] = (if cur = [] then [] else [cur])"
| "scan_tokens cur (c # cs) =
     (if is_alnum c then scan_tokens (cur @ [c]) cs
      else if c = CHR ''-'' \<and> cur \<noteq> [] \<and> cs \<noteq> [] \<and> is_alnum (hd cs)
           then scan_tokens (cur @ [c]) cs
      else if cur = [] then scan_tokens [] cs
      else cur # scan_tokens [] cs)"

definition tokenize :: "string \<Rightarrow> string list" where
  "tokenize s = scan_tokens [] s"

text \<open>\<open>" AND ".join([f'"{tok}"' for tok in tokens])\<close>; \<open>CHR 0x22\<close> is the double quote.\<close>

definition quote_token :: "string \<Rightarrow> string" where
  "quote_token tok = CHR 0x22 # tok @ [CHR 0x22]"

definition fts_query :: "string list \<Rightarrow> string" where
  "fts_query tokens = join '' AND '' (map quote_token tokens)"

text \<open>
  The conditions of the \<open>WHERE\<close> clause with their parameters. \<open>Like\<close> is
  \<open>col LIKE ?\<close>, \<open>Text_Like\<close> is the disjunction of \<open>LIKE\<close> over \<open>short_name\<close>,
  \<open>plate\<close>, \<open>person\<close>, \<open>phone\<close> and \<open>email\<close> with one pattern, \<open>Id_In\<close> is
  \<open>id IN (...)\<close>.
\<close>

datatype cond =
  Like "order_row \<Rightarrow> string" string
| Station_Eq int
| Missing_Parts
| Date_Ge "order_row \<Rightarrow> string" string
| Date_Le "order_row \<Rightarrow> string" string
| Text_Like string
| Id_In "int list"

text \<open>
  SQLite's \<open>LIKE\<close>: \<open>%\<close> stands for any text, \<open>_\<close> for one character, and the letters
  \<open>A..Z\<close> match their lower case.
\<close>

definition lower_ascii :: "char \<Rightarrow> char" where
  "lower_ascii c = (if is_upper_az c then char_of (of_char c + (32::nat)) else c)"

fun like_match :: "string \<Rightarrow> string \<Rightarrow> bool" where
  "like_match [] [] = True"
| "like_match [] (c # cs) = False"
| "like_match (p # ps) [] = (p = CHR ''%'' \<and> like_match ps [])"
| "like_match (p # ps) (c # cs) =
     (if p = CHR ''%'' then like_match ps (c # cs) \<or> like_match (p # ps) cs
      else (p = CHR ''_'' \<or> lower_ascii p = lower_ascii c) \<and> like_match ps cs)"

text \<open>The comparison of two texts, code point by code point.\<close>

fun str_less :: "string \<Rightarrow> string \<Rightarrow> bool" where
  "str_less [] [] = False"
| "str_less [] (b # bs) = True"
| "str_less (a # as) [] = False"
| "str_less (a # as) (b # bs) =
     ((of_char a :: nat) < of_char b \<or> (a = b \<and> str_less as bs))"

fun eval_cond :: "cond \<Rightarrow> order_row \<Rightarrow> bool" where
  "eval_cond (Like col pat) r = like_match pat (col r)"
| "eval_cond (Station_Eq n) r = (station_id r = Some n)"
| "eval_cond Missing_Parts r = (missing_parts r = 1)"
| "eval_cond (Date_Ge col v) r = (\<not> str_less (col r) v)"
| "eval_cond (Date_Le col v) r = (\<not> str_less v (col r))"
| "eval_cond (Text_Like pat) r =
     (like_match pat (short_name r) \<or> like_match pat (plate r) \<or> like_match pat (person r) \<or>
      like_match pat (phone r) \<or> like_match pat (email r))"
| "eval_cond (Id_In ids) r = (id' r \<in> set ids)"

record query_args =
  arg_text :: "string option"
  arg_plate :: "string option"
  arg_person :: "string option"
  arg_phone :: "string option"
  arg_email :: "string option"
  arg_status :: "string option"
  arg_damage :: "string option"
  arg_station :: "int option"
  arg_missing_parts :: bool
  arg_after :: "string option"
  arg_before :: "string option"
  arg_finish_after :: "string option"
  arg_finish_before :: "string option"
  arg_limit :: int

text \<open>\<open>if args.x: ...\<close> for an optional text argument: \<open>None\<close> and the empty text add nothing.\<close>

definition opt_cond :: "string option \<Rightarrow> (string \<Rightarrow> cond) \<Rightarrow> cond list" where
  "opt_cond a f = (case a of None \<Rightarrow> [] | Some v \<Rightarrow> if v = [] then [] else [f v])"

definition like_pattern :: "string \<Rightarrow> string" where
  "like_pattern val = ''%'' @ val @ ''%''"

text \<open>The structured filters, in the order of the source.\<close>

definition structured_where :: "query_args \<Rightarrow> cond list" where
  "structured_where args =
     opt_cond (arg_plate args) (\<lambda>v. Like plate (like_pattern v)) @
     opt_cond (arg_person args) (\<lambda>v. Like person (like_pattern v)) @
     opt_cond (arg_phone args) (\<lambda>v. Like phone (like_pattern v)) @
     opt_cond (arg_email args) (\<lambda>v. Like email (like_pattern v)) @
     opt_cond (arg_status args) (\<lambda>v. Like project_status (like_pattern v)) @
     opt_cond (arg_damage args) (\<lambda>v. Like damage (like_pattern v)) @
     (case arg_station args of None \<Rightarrow> [] | Some n \<Rightarrow> [Station_Eq n]) @
     (if arg_missing_parts args then [Missing_Parts] else []) @
     opt_cond (arg_after args) (\<lambda>v. Date_Ge shop_date v) @
     opt_cond (arg_before args) (\<lambda>v. Date_Le shop_date v) @
     opt_cond (arg_finish_after args) (\<lambda>v. Date_Ge finish_date v) @
     opt_cond (arg_finish_before args) (\<lambda>v. Date_Le finish_date v)"

text \<open>
  The free-text path. \<open>fts\<close> is the full-text index of SQLite behind
  \<open>SELECT rowid FROM orders_fts WHERE orders_fts MATCH ? LIMIT 200\<close>: for a query text it
  returns the identifiers of the matching rows or raises. \<open>sqlite3.OperationalError\<close>, which
  a syntax error of the query text is, is caught; any other error of the index leaves
  \<open>cmd_query\<close>. The result is the list of conditions that the text adds.
\<close>

definition text_where :: "(string \<Rightarrow> py_error + int list) \<Rightarrow> string \<Rightarrow> py_error + cond list" where
  "text_where fts text =
     (let stripped = strip text; tokens = tokenize stripped
      in case (if tokens \<noteq> []
               then (case fts (fts_query tokens) of
                       Inr rows \<Rightarrow> Inr (Some rows)
                     | Inl e \<Rightarrow> if e = OperationalError then Inr None else Inl e)
               else Inr None) of
           Inl e \<Rightarrow> Inl e
         | Inr fts_rows \<Rightarrow>
             Inr ((if tokens = [] \<or> fts_rows = Some [] \<or> fts_rows = None
                   then [Text_Like (like_pattern stripped)] else []) @
                  (case fts_rows of
                     Some rows \<Rightarrow> if rows \<noteq> [] then [Id_In rows] else []
                   | None \<Rightarrow> [])))"

definition query_where :: "query_args \<Rightarrow> (string \<Rightarrow> py_error + int list) \<Rightarrow> py_error + cond list" where
  "query_where args fts =
     (case arg_text args of
        None \<Rightarrow> Inr (structured_where args)
      | Some text \<Rightarrow>
          if text = [] then Inr (structured_where args)
          else (case text_where fts text of
                  Inl e \<Rightarrow> Inl e
                | Inr conds \<Rightarrow> Inr (structured_where args @ conds)))"

text \<open>\<open>ORDER BY shop_date DESC, id DESC\<close> and \<open>LIMIT ?\<close> (a negative limit is no limit).\<close>

definition row_before :: "order_row \<Rightarrow> order_row \<Rightarrow> bool" where
  "row_before a b \<longleftrightarrow>
     str_less (shop_date b) (shop_date a) \<or> (shop_date a = shop_date b \<and> id' b \<le> id' a)"

fun insert_row :: "order_row \<Rightarrow> order_row list \<Rightarrow> order_row list" where
  "insert_row r [] = [r]"
| "insert_row r (x # xs) = (if row_before r x then r # x # xs else x # insert_row r xs)"

definition order_rows :: "order_row list \<Rightarrow> order_row list" where
  "order_rows rows = foldr insert_row rows []"

definition limit_rows :: "int \<Rightarrow> order_row list \<Rightarrow> order_row list" where
  "limit_rows n rows = (if n < 0 then rows else take (nat n) rows)"

text \<open>\<open>cmd_query\<close>: the rows that it renders.\<close>

definition cmd_query ::
  "query_args \<Rightarrow> (string \<Rightarrow> py_error + int list) \<Rightarrow> database \<Rightarrow> py_error + order_row list" where
  "cmd_query args fts con =
     (case query_where args fts of
        Inl e \<Rightarrow> Inl e
      | Inr conds \<Rightarrow>
          Inr (limit_rows (arg_limit args)
                 (order_rows (filter (\<lambda>r. list_all (\<lambda>c. eval_cond c r) conds) (orders con)))))"

text \<open>
  The shape of a token, \<open>[A-Za-z0-9]+(?:-[A-Za-z0-9]+)*\<close> on a whole text: letters and
  digits with single hyphens between them.
\<close>

fun hyphenated :: "string \<Rightarrow> bool" where
  "hyphenated [] = False"
| "hyphenated [c] = is_alnum c"
| "hyphenated (c # d # cs) =
     (is_alnum c \<and> (if d = CHR ''-'' then hyphenated cs else hyphenated (d # cs)))"

text \<open>
  How the index reads a query text without escapes: the phrases are the texts between the
  first and second double quote, the third and fourth, and so on.
\<close>

fun odds :: "'a list \<Rightarrow> 'a list" where
  "odds [] = []"
| "odds [x] = []"
| "odds (x # y # zs) = y # odds zs"

definition quoted_phrases :: "string \<Rightarrow> string list" where
  "quoted_phrases q = odds (split_on (CHR 0x22) q)"

section \<open>Facts about the string functions\<close>

lemma digit_not_space: "is_digit c \<Longrightarrow> \<not> is_space c"
  by (auto simp: is_digit_def is_space_def)

lemma strip_ends:
  assumes "strip s \<noteq> []"
  shows "\<not> is_space (hd (strip s))" and "\<not> is_space (last (strip s))"
proof -
  let ?a = "dropWhile is_space (rev (dropWhile is_space s))"
  from assms have ne: "?a \<noteq> []" by (simp add: strip_def)
  then have "\<not> is_space (hd ?a)" by (rule hd_dropWhile)
  then show "\<not> is_space (last (strip s))" using ne by (simp add: strip_def last_rev)
  have "dropWhile is_space s \<noteq> []" using ne by (cases "dropWhile is_space s") auto
  then have h: "\<not> is_space (hd (dropWhile is_space s))" by (rule hd_dropWhile)
  have "hd (strip s) = last ?a" using ne by (simp add: strip_def hd_rev)
  also have "last ?a = last (rev (dropWhile is_space s))"
    using ne by (metis dropWhile_eq_Nil_conv last_appendR takeWhile_dropWhile_id)
  also have "\<dots> = hd (dropWhile is_space s)" using \<open>dropWhile is_space s \<noteq> []\<close> by (simp add: last_rev)
  finally show "\<not> is_space (hd (strip s))" using h by simp
qed

lemma strip_fixed:
  assumes "s \<noteq> []" "\<not> is_space (hd s)" "\<not> is_space (last s)"
  shows "strip s = s"
proof -
  from assms have 1: "dropWhile is_space s = s" by (cases s) auto
  from assms have 2: "dropWhile is_space (rev s) = rev s" by (cases "rev s") (auto simp: last_rev hd_rev)
  show ?thesis by (simp add: strip_def 1 2)
qed

lemma strip_idem: "strip (strip s) = strip s"
proof (cases "strip s = []")
  case True
  then have "strip (strip s) = strip []" by simp
  also have "\<dots> = []" by (simp add: strip_def)
  finally show ?thesis using True by simp
next
  case False then show ?thesis using strip_ends[OF False] by (intro strip_fixed) auto
qed

lemma split_on_nosep: "sep \<notin> set s \<Longrightarrow> split_on sep s = [s]"
  by (induction s) auto

lemma split_on_append: "sep \<notin> set a \<Longrightarrow> split_on sep (a @ sep # b) = a # split_on sep b"
  by (induction a) auto

lemma split_on_ne: "split_on sep s \<noteq> []"
  by (induction s) (auto split: list.splits)

lemma split_on_join: "join [sep] (split_on sep s) = s"
proof (induction s)
  case Nil then show ?case by simp
next
  case (Cons c cs)
  show ?case
  proof (cases "c = sep")
    case True
    then show ?thesis using Cons split_on_ne[of sep cs] by (cases "split_on sep cs") auto
  next
    case False
    obtain w ws where w: "split_on sep cs = w # ws"
      using split_on_ne[of sep cs] by (cases "split_on sep cs") auto
    then show ?thesis using Cons False by (cases ws) auto
  qed
qed

lemma split_on_nosep_parts: "w \<in> set (split_on sep s) \<Longrightarrow> sep \<notin> set w"
  by (induction s arbitrary: w) (auto split: list.splits if_splits)

section \<open>Facts about the date parser\<close>

lemma digits_between_chars: "digits_between lo hi s \<Longrightarrow> c \<in> set s \<Longrightarrow> is_digit c"
  by (auto simp: digits_between_def list_all_iff)

lemma digit_neq_dot: "is_digit c \<Longrightarrow> c \<noteq> CHR ''.'' \<and> c \<noteq> CHR '':'' \<and> c \<noteq> CHR ''-''"
  by (auto simp: is_digit_def)

lemma match_iso_date_chars: "match_iso_date s \<Longrightarrow> c \<in> set s \<Longrightarrow> is_digit c \<or> c = CHR ''-''"
  by (erule match_iso_date.elims) auto

lemma match_iso_date_ne: "match_iso_date s \<Longrightarrow> s \<noteq> []"
  by (erule match_iso_date.elims) auto

lemma dash_not_space: "\<not> is_space (CHR ''-'')" "\<not> is_space (CHR ''.'')" "\<not> is_space (CHR '':'')"
  by (simp_all add: is_space_def)

lemma strip_no_space: "strip s = s" if "\<forall>c\<in>set s. \<not> is_space c"
proof (cases "s = []")
  case True then show ?thesis by (simp add: strip_def)
next
  case False
  then have "hd s \<in> set s" "last s \<in> set s" by simp_all
  with that have "\<not> is_space (hd s)" "\<not> is_space (last s)" by blast+
  then show ?thesis using False by (intro strip_fixed)
qed

lemma match_iso_date_strip: "match_iso_date s \<Longrightarrow> strip s = s"
  by (rule strip_no_space) (auto dest: match_iso_date_chars simp: dash_not_space digit_not_space)

lemma match_de_date_fwd:
  assumes "digits_between 1 2 dd" "digits_between 1 2 mm" "digits_between 4 4 yy"
  shows "match_de_date (dd @ ''.'' @ mm @ ''.'' @ yy) =
           Some (nat_of_digits dd, nat_of_digits mm, nat_of_digits yy)"
proof -
  have n: "CHR ''.'' \<notin> set dd" "CHR ''.'' \<notin> set mm" "CHR ''.'' \<notin> set yy"
    using assms digits_between_chars digit_neq_dot by blast+
  have "split_on (CHR ''.'') (dd @ ''.'' @ mm @ ''.'' @ yy) = [dd, mm, yy]"
    using n by (simp add: split_on_append split_on_nosep)
  then show ?thesis using assms by (simp add: match_de_date_def)
qed

lemma match_de_date_bwd:
  assumes "match_de_date s = Some (d, mo, y)"
  shows "\<exists>dd mm yy. s = dd @ ''.'' @ mm @ ''.'' @ yy \<and> digits_between 1 2 dd \<and>
           digits_between 1 2 mm \<and> digits_between 4 4 yy \<and>
           d = nat_of_digits dd \<and> mo = nat_of_digits mm \<and> y = nat_of_digits yy"
proof -
  from assms obtain dd mm yy where sp: "split_on (CHR ''.'') s = [dd, mm, yy]"
    and dg: "digits_between 1 2 dd" "digits_between 1 2 mm" "digits_between 4 4 yy"
    and v: "d = nat_of_digits dd" "mo = nat_of_digits mm" "y = nat_of_digits yy"
    by (auto simp: match_de_date_def split: list.splits if_splits)
  have "s = join ''.'' (split_on (CHR ''.'') s)" by (simp add: split_on_join)
  then have "s = dd @ ''.'' @ mm @ ''.'' @ yy" by (simp add: sp)
  then show ?thesis using dg v by blast
qed

lemma match_time_fwd:
  assumes "digits_between 1 2 hh" "digits_between 2 2 mi" "digits_between 2 2 ss"
  shows "match_time (hh @ '':'' @ mi @ '':'' @ ss) =
           Some (nat_of_digits hh, nat_of_digits mi, nat_of_digits ss)"
proof -
  have n: "CHR '':'' \<notin> set hh" "CHR '':'' \<notin> set mi" "CHR '':'' \<notin> set ss"
    using assms digits_between_chars digit_neq_dot by blast+
  have "split_on (CHR '':'') (hh @ '':'' @ mi @ '':'' @ ss) = [hh, mi, ss]"
    using n by (simp add: split_on_append split_on_nosep)
  then show ?thesis using assms by (simp add: match_time_def)
qed

lemma match_time_bwd:
  assumes "match_time s = Some (h, m, x)"
  shows "\<exists>hh mi ss. s = hh @ '':'' @ mi @ '':'' @ ss \<and> digits_between 1 2 hh \<and>
           digits_between 2 2 mi \<and> digits_between 2 2 ss \<and>
           h = nat_of_digits hh \<and> m = nat_of_digits mi \<and> x = nat_of_digits ss"
proof -
  from assms obtain hh mi ss where sp: "split_on (CHR '':'') s = [hh, mi, ss]"
    and dg: "digits_between 1 2 hh" "digits_between 2 2 mi" "digits_between 2 2 ss"
    and v: "h = nat_of_digits hh" "m = nat_of_digits mi" "x = nat_of_digits ss"
    by (auto simp: match_time_def split: list.splits if_splits)
  have "s = join '':'' (split_on (CHR '':'') s)" by (simp add: split_on_join)
  then have "s = hh @ '':'' @ mi @ '':'' @ ss" by (simp add: sp)
  then show ?thesis using dg v by blast
qed

lemma de_date_no_space:
  assumes "digits_between 1 2 dd" "digits_between 1 2 mm" "digits_between 4 4 yy"
  shows "\<forall>c\<in>set (dd @ ''.'' @ mm @ ''.'' @ yy). \<not> is_space c"
  using assms by (auto simp: dash_not_space dest: digits_between_chars digit_not_space)

lemma de_date_ne:
  assumes "digits_between 1 2 dd"
  shows "dd @ ''.'' @ mm @ ''.'' @ yy \<noteq> []"
  by simp

lemma match_de_date_no_space: "match_de_date s = Some r \<Longrightarrow> c \<in> set s \<Longrightarrow> \<not> is_space c"
  by (cases r) (metis match_de_date_bwd de_date_no_space prod_cases3)

lemma match_de_datetime_fwd:
  assumes d: "digits_between 1 2 dd" "digits_between 1 2 mm" "digits_between 4 4 yy"
    and t: "digits_between 1 2 hh" "digits_between 2 2 mi" "digits_between 2 2 ss"
    and w: "ws \<noteq> []" "list_all is_space ws"
  shows "match_de_datetime ((dd @ ''.'' @ mm @ ''.'' @ yy) @ ws @ (hh @ '':'' @ mi @ '':'' @ ss)) =
           Some ((nat_of_digits dd, nat_of_digits mm, nat_of_digits yy),
                 (nat_of_digits hh, nat_of_digits mi, nat_of_digits ss))"
proof -
  let ?D = "dd @ ''.'' @ mm @ ''.'' @ yy" and ?T = "hh @ '':'' @ mi @ '':'' @ ss"
  have D: "\<And>c. c \<in> set ?D \<Longrightarrow> \<not> is_space c" using de_date_no_space[OF d] by blast
  obtain w0 ws' where ws: "ws = w0 # ws'" using w by (cases ws) auto
  then have w0: "is_space w0" using w by simp
  have tw: "takeWhile (\<lambda>c. \<not> is_space c) (?D @ ws @ ?T) = ?D"
    using D w0 unfolding ws by (subst takeWhile_append2) auto
  have dw: "dropWhile (\<lambda>c. \<not> is_space c) (?D @ ws @ ?T) = ws @ ?T"
    using D w0 unfolding ws by (subst dropWhile_append2) auto
  have hh0: "hh \<noteq> []" using t(1) by (auto simp: digits_between_def)
  then have "is_digit (hd hh)" using t(1) digits_between_chars hd_in_set by blast
  then have hh: "hh \<noteq> []" "\<not> is_space (hd hh)" using hh0 digit_not_space by auto
  then obtain h0 hs where hs: "hh = h0 # hs" by (cases hh) auto
  have dw2: "dropWhile is_space (ws @ ?T) = ?T"
    using w(2) hh unfolding hs by (subst dropWhile_append2) (auto simp: list_all_iff)
  show ?thesis
    unfolding match_de_datetime_def Let_def tw dw dw2
    using match_de_date_fwd[OF d] match_time_fwd[OF t] w by simp
qed

lemma match_de_datetime_bwd:
  assumes "match_de_datetime s = Some ((d, mo, y), (h, m, x))"
  shows "\<exists>dd mm yy ws hh mi ss. s = (dd @ ''.'' @ mm @ ''.'' @ yy) @ ws @ (hh @ '':'' @ mi @ '':'' @ ss) \<and>
           digits_between 1 2 dd \<and> digits_between 1 2 mm \<and> digits_between 4 4 yy \<and>
           ws \<noteq> [] \<and> list_all is_space ws \<and>
           digits_between 1 2 hh \<and> digits_between 2 2 mi \<and> digits_between 2 2 ss \<and>
           d = nat_of_digits dd \<and> mo = nat_of_digits mm \<and> y = nat_of_digits yy \<and>
           h = nat_of_digits hh \<and> m = nat_of_digits mi \<and> x = nat_of_digits ss"
proof -
  let ?D = "takeWhile (\<lambda>c. \<not> is_space c) s" and ?R = "dropWhile (\<lambda>c. \<not> is_space c) s"
  let ?W = "takeWhile is_space ?R" and ?T = "dropWhile is_space ?R"
  from assms have R: "?R \<noteq> []" and md: "match_de_date ?D = Some (d, mo, y)"
    and mt: "match_time ?T = Some (h, m, x)"
    by (auto simp: match_de_datetime_def Let_def split: if_splits option.splits)
  have "is_space (hd ?R)" using hd_dropWhile[OF R] by simp
  then have W: "?W \<noteq> []" using R by (cases ?R) auto
  have Wall: "list_all is_space ?W" by (simp add: list_all_iff) (meson set_takeWhileD)
  have s: "s = ?D @ ?W @ ?T" by simp
  from match_de_date_bwd[OF md] match_time_bwd[OF mt] W Wall s show ?thesis
    by metis
qed

lemma parse_strip: "parse_german_date_or_datetime s = parse_german_date_or_datetime (strip s)"
proof (cases "strip s = []")
  case True
  then show ?thesis
    by (simp add: parse_german_date_or_datetime_def Let_def match_de_date_def match_de_datetime_def)
next
  case False
  then have "s \<noteq> []" by (auto simp: strip_def)
  then show ?thesis using False by (simp add: parse_german_date_or_datetime_def Let_def strip_idem)
qed

lemma parse_iso: "match_iso_date s \<Longrightarrow> parse_german_date_or_datetime s = (Some s, None)"
  by (simp add: parse_german_date_or_datetime_def Let_def match_iso_date_strip match_iso_date_ne)

lemma dot_not_iso: "CHR ''.'' \<in> set s \<Longrightarrow> \<not> match_iso_date s"
  using match_iso_date_chars[of s "CHR ''.''"] by (auto simp: is_digit_def)

lemma parse_de_date:
  assumes "digits_between 1 2 dd" "digits_between 1 2 mm" "digits_between 4 4 yy"
  shows "parse_german_date_or_datetime (dd @ ''.'' @ mm @ ''.'' @ yy) =
    (if valid_date (nat_of_digits yy) (nat_of_digits mm) (nat_of_digits dd)
     then (Some (date_isoformat \<lparr>year = nat_of_digits yy, month = nat_of_digits mm, day = nat_of_digits dd\<rparr>), None)
     else (None, None))"
proof -
  let ?s = "dd @ ''.'' @ mm @ ''.'' @ yy"
  have 1: "strip ?s = ?s" using de_date_no_space[OF assms] by (rule strip_no_space)
  have 2: "\<not> match_iso_date ?s" by (rule dot_not_iso) simp
  show ?thesis
    unfolding parse_german_date_or_datetime_def Let_def 1
    using 2 match_de_date_fwd[OF assms] by (simp add: date_new_def)
qed

lemma parse_de_datetime:
  assumes d: "digits_between 1 2 dd" "digits_between 1 2 mm" "digits_between 4 4 yy"
    and t: "digits_between 1 2 hh" "digits_between 2 2 mi" "digits_between 2 2 ss"
    and w: "ws \<noteq> []" "list_all is_space ws"
  shows "parse_german_date_or_datetime ((dd @ ''.'' @ mm @ ''.'' @ yy) @ ws @ (hh @ '':'' @ mi @ '':'' @ ss)) =
    (if valid_date (nat_of_digits yy) (nat_of_digits mm) (nat_of_digits dd) \<and>
        valid_time (nat_of_digits hh) (nat_of_digits mi) (nat_of_digits ss)
     then (Some (date_isoformat \<lparr>year = nat_of_digits yy, month = nat_of_digits mm, day = nat_of_digits dd\<rparr>),
           Some (datetime_isoformat \<lparr>year = nat_of_digits yy, month = nat_of_digits mm, day = nat_of_digits dd,
                  hour = nat_of_digits hh, minute = nat_of_digits mi, second = nat_of_digits ss\<rparr>))
     else (None, None))"
proof -
  let ?s = "(dd @ ''.'' @ mm @ ''.'' @ yy) @ ws @ (hh @ '':'' @ mi @ '':'' @ ss)"
  have hd: "hd ?s \<in> set dd" using d(1) by (cases dd) (auto simp: digits_between_def)
  have la: "last ?s \<in> set ss" using t(3) by (cases ss rule: rev_cases) (auto simp: digits_between_def)
  have 1: "strip ?s = ?s"
    using hd la d(1) t(3) digits_between_chars digit_not_space by (intro strip_fixed) auto
  have 2: "\<not> match_iso_date ?s" by (rule dot_not_iso) simp
  obtain w0 where "w0 \<in> set ws" "is_space w0" using w by (cases ws) auto
  then have 3: "match_de_date ?s = None"
    using match_de_date_no_space[of ?s _ w0] by (cases "match_de_date ?s") auto
  show ?thesis
    unfolding parse_german_date_or_datetime_def Let_def 1
    using 2 3 match_de_datetime_fwd[OF d t w] by (simp add: datetime_new_def date_isoformat_def)
qed

lemma parse_accepts_only:
  assumes "parse_german_date_or_datetime s \<noteq> (None, None)"
  shows "match_iso_date (strip s) \<or>
     (\<exists>dd mm yy. strip s = dd @ ''.'' @ mm @ ''.'' @ yy \<and>
        digits_between 1 2 dd \<and> digits_between 1 2 mm \<and> digits_between 4 4 yy \<and>
        valid_date (nat_of_digits yy) (nat_of_digits mm) (nat_of_digits dd)) \<or>
     (\<exists>dd mm yy ws hh mi ss.
        strip s = (dd @ ''.'' @ mm @ ''.'' @ yy) @ ws @ (hh @ '':'' @ mi @ '':'' @ ss) \<and>
        digits_between 1 2 dd \<and> digits_between 1 2 mm \<and> digits_between 4 4 yy \<and>
        ws \<noteq> [] \<and> list_all is_space ws \<and>
        digits_between 1 2 hh \<and> digits_between 2 2 mi \<and> digits_between 2 2 ss \<and>
        valid_date (nat_of_digits yy) (nat_of_digits mm) (nat_of_digits dd) \<and>
        valid_time (nat_of_digits hh) (nat_of_digits mi) (nat_of_digits ss))"
proof (cases "match_iso_date (strip s)")
  case True then show ?thesis by simp
next
  case niso: False
  have ne: "s \<noteq> []" using assms by (auto simp: parse_german_date_or_datetime_def)
  show ?thesis
  proof (cases "match_de_date (strip s)")
    case (Some r)
    obtain d mo y where r: "r = (d, mo, y)" by (cases r)
    have "parse_german_date_or_datetime s =
            (case date_new y mo d of Inr dt \<Rightarrow> (Some (date_isoformat dt), None) | Inl e \<Rightarrow> (None, None))"
      using ne niso Some r by (simp add: parse_german_date_or_datetime_def Let_def)
    with assms have v: "valid_date y mo d" by (auto simp: date_new_def split: if_splits)
    from match_de_date_bwd[OF Some[unfolded r]] obtain dd mm yy where
      "strip s = dd @ ''.'' @ mm @ ''.'' @ yy" "digits_between 1 2 dd" "digits_between 1 2 mm"
      "digits_between 4 4 yy" "d = nat_of_digits dd" "mo = nat_of_digits mm" "y = nat_of_digits yy"
      by blast
    with v have "\<exists>dd mm yy. strip s = dd @ ''.'' @ mm @ ''.'' @ yy \<and>
        digits_between 1 2 dd \<and> digits_between 1 2 mm \<and> digits_between 4 4 yy \<and>
        valid_date (nat_of_digits yy) (nat_of_digits mm) (nat_of_digits dd)" by blast
    then show ?thesis by simp
  next
    case None
    have p: "parse_german_date_or_datetime s =
       (case match_de_datetime (strip s) of
          Some ((d, mo, y), (hh, mm, ss)) \<Rightarrow>
            (case datetime_new y mo d hh mm ss of
               Inr dt \<Rightarrow> (Some (date_isoformat dt), Some (datetime_isoformat dt))
             | Inl e \<Rightarrow> (None, None))
        | None \<Rightarrow> (None, None))"
      using ne niso None by (simp add: parse_german_date_or_datetime_def Let_def)
    with assms obtain r where dt0: "match_de_datetime (strip s) = Some r"
      by (cases "match_de_datetime (strip s)") auto
    obtain d mo y h m x where r: "r = ((d, mo, y), (h, m, x))" by (metis prod_cases3)
    note dt = dt0[unfolded r]
    from p assms have v: "valid_date y mo d" "valid_time h m x"
      by (auto simp: dt datetime_new_def split: if_splits)
    from match_de_datetime_bwd[OF dt] obtain dd mm yy ws hh mi ss where
      "strip s = (dd @ ''.'' @ mm @ ''.'' @ yy) @ ws @ (hh @ '':'' @ mi @ '':'' @ ss)"
      "digits_between 1 2 dd" "digits_between 1 2 mm" "digits_between 4 4 yy"
      "ws \<noteq> []" "list_all is_space ws"
      "digits_between 1 2 hh" "digits_between 2 2 mi" "digits_between 2 2 ss"
      "d = nat_of_digits dd" "mo = nat_of_digits mm" "y = nat_of_digits yy"
      "h = nat_of_digits hh" "m = nat_of_digits mi" "x = nat_of_digits ss"
      by blast
    with v have "\<exists>dd mm yy ws hh mi ss.
        strip s = (dd @ ''.'' @ mm @ ''.'' @ yy) @ ws @ (hh @ '':'' @ mi @ '':'' @ ss) \<and>
        digits_between 1 2 dd \<and> digits_between 1 2 mm \<and> digits_between 4 4 yy \<and>
        ws \<noteq> [] \<and> list_all is_space ws \<and>
        digits_between 1 2 hh \<and> digits_between 2 2 mi \<and> digits_between 2 2 ss \<and>
        valid_date (nat_of_digits yy) (nat_of_digits mm) (nat_of_digits dd) \<and>
        valid_time (nat_of_digits hh) (nat_of_digits mi) (nat_of_digits ss)" by blast
    then show ?thesis by simp
  qed
qed

lemma show_nat_digits: "list_all is_digit (show_nat n)"
proof (induction n rule: show_nat.induct)
  case (1 n)
  have "\<And>k. k < 10 \<Longrightarrow> is_digit (digit_char k)" by (simp add: is_digit_def digit_char_def)
  then show ?case using 1 by (subst show_nat.simps) auto
qed

lemma show_nat_length: "n < 10 ^ k \<Longrightarrow> 0 < k \<Longrightarrow> length (show_nat n) \<le> k"
proof (induction n arbitrary: k rule: show_nat.induct)
  case (1 n)
  show ?case
  proof (cases "n < 10")
    case True then show ?thesis using 1(3) by (subst show_nat.simps) simp
  next
    case False
    then obtain j where k: "k = Suc j" and j: "0 < j" using 1(2,3) by (cases k; cases "k - 1") auto
    have "n div 10 < 10 ^ j" using 1(2) k by (simp add: less_mult_imp_div_less)
    from 1(1)[OF False this j] show ?thesis using False k by (subst show_nat.simps) simp
  qed
qed

lemma zfill_length: "n < 10 ^ k \<Longrightarrow> 0 < k \<Longrightarrow> length (zfill k n) = k"
  using show_nat_length[of n k] by (simp add: zfill_def)

lemma zfill_digits: "list_all is_digit (zfill k n)"
proof -
  have "is_digit (CHR ''0'')" by (simp add: is_digit_def)
  then show ?thesis using show_nat_digits[of n] by (auto simp: zfill_def list_all_iff)
qed

lemma days_in_month_le: "days_in_month y mo \<le> 31"
  by (simp add: days_in_month_def)

lemma valid_date_bounds:
  assumes "valid_date y mo d"
  shows "y < 10 ^ 4" and "mo < 10 ^ 2" and "d < 10 ^ 2"
proof -
  from assms have "y \<le> 9999" "mo \<le> 12" "d \<le> days_in_month y mo" by (simp_all add: valid_date_def)
  moreover have "(10::nat) ^ 4 = 10000" "(10::nat) ^ 2 = 100" by simp_all
  ultimately show "y < 10 ^ 4" and "mo < 10 ^ 2" and "d < 10 ^ 2"
    using days_in_month_le[of y mo] by linarith+
qed

lemma date_isoformat_shape:
  assumes "valid_date y mo d"
  shows "match_iso_date (date_isoformat \<lparr>year = y, month = mo, day = d\<rparr>)"
proof -
  from valid_date_bounds[OF assms] have
    "length (zfill 4 y) = 4" "length (zfill 2 mo) = 2" "length (zfill 2 d) = 2"
    by (simp_all add: zfill_length)
  then obtain a b c e f g h i where
    "zfill 4 y = [a, b, c, e]" "zfill 2 mo = [f, g]" "zfill 2 d = [h, i]"
    by (auto simp: length_Suc_conv numeral_eq_Suc)
  then show ?thesis
    using zfill_digits[of 4 y] zfill_digits[of 2 mo] zfill_digits[of 2 d]
    by (simp add: date_isoformat_def)
qed

subsection \<open>Claim C8\<close>

text \<open>
  C8, as amended. \<open>_parse_german_date_or_datetime\<close> ignores white space around its input and
  accepts exactly three shapes. A text of the shape \<open>dddd-dd-dd\<close> is returned unchanged as the
  date, whether or not it names a day of the calendar. A text \<open>D.M.YYYY\<close> with one or two digits
  for the day and for the month and four for the year is converted to the ISO date when it names
  a day of the calendar (years 1 to 9999), and gives \<open>(None, None)\<close> otherwise. The same text
  followed by white space and \<open>H:MM:SS\<close> is converted to the ISO date and the ISO date and
  time when the date and the time of day both exist. A converted date has the ISO shape. Every
  other input gives \<open>(None, None)\<close>; the function is total, so it never raises.
\<close>

theorem parse_german_date_or_datetime_formats:
  "parse_german_date_or_datetime s = parse_german_date_or_datetime (strip s) \<and>
   (match_iso_date s \<longrightarrow> parse_german_date_or_datetime s = (Some s, None)) \<and>
   (digits_between 1 2 dd \<and> digits_between 1 2 mm \<and> digits_between 4 4 yy \<longrightarrow>
      parse_german_date_or_datetime (dd @ ''.'' @ mm @ ''.'' @ yy) =
        (if valid_date (nat_of_digits yy) (nat_of_digits mm) (nat_of_digits dd)
         then (Some (date_isoformat
                 \<lparr>year = nat_of_digits yy, month = nat_of_digits mm, day = nat_of_digits dd\<rparr>), None)
         else (None, None)) \<and>
      (ws \<noteq> [] \<and> list_all is_space ws \<and>
       digits_between 1 2 hh \<and> digits_between 2 2 mi \<and> digits_between 2 2 ss \<longrightarrow>
         parse_german_date_or_datetime
             ((dd @ ''.'' @ mm @ ''.'' @ yy) @ ws @ (hh @ '':'' @ mi @ '':'' @ ss)) =
           (if valid_date (nat_of_digits yy) (nat_of_digits mm) (nat_of_digits dd) \<and>
               valid_time (nat_of_digits hh) (nat_of_digits mi) (nat_of_digits ss)
            then (Some (date_isoformat
                    \<lparr>year = nat_of_digits yy, month = nat_of_digits mm, day = nat_of_digits dd\<rparr>),
                  Some (datetime_isoformat
                    \<lparr>year = nat_of_digits yy, month = nat_of_digits mm, day = nat_of_digits dd,
                     hour = nat_of_digits hh, minute = nat_of_digits mi,
                     second = nat_of_digits ss\<rparr>))
            else (None, None))) \<and>
      (valid_date (nat_of_digits yy) (nat_of_digits mm) (nat_of_digits dd) \<longrightarrow>
         match_iso_date (date_isoformat
           \<lparr>year = nat_of_digits yy, month = nat_of_digits mm, day = nat_of_digits dd\<rparr>))) \<and>
   (parse_german_date_or_datetime s \<noteq> (None, None) \<longrightarrow>
      match_iso_date (strip s) \<or>
      (\<exists>dd mm yy. strip s = dd @ ''.'' @ mm @ ''.'' @ yy \<and>
         digits_between 1 2 dd \<and> digits_between 1 2 mm \<and> digits_between 4 4 yy \<and>
         valid_date (nat_of_digits yy) (nat_of_digits mm) (nat_of_digits dd)) \<or>
      (\<exists>dd mm yy ws hh mi ss.
         strip s = (dd @ ''.'' @ mm @ ''.'' @ yy) @ ws @ (hh @ '':'' @ mi @ '':'' @ ss) \<and>
         digits_between 1 2 dd \<and> digits_between 1 2 mm \<and> digits_between 4 4 yy \<and>
         ws \<noteq> [] \<and> list_all is_space ws \<and>
         digits_between 1 2 hh \<and> digits_between 2 2 mi \<and> digits_between 2 2 ss \<and>
         valid_date (nat_of_digits yy) (nat_of_digits mm) (nat_of_digits dd) \<and>
         valid_time (nat_of_digits hh) (nat_of_digits mi) (nat_of_digits ss)))"
proof (intro conjI impI)
  show "parse_german_date_or_datetime s = parse_german_date_or_datetime (strip s)"
    by (rule parse_strip)
next
  assume "match_iso_date s"
  then show "parse_german_date_or_datetime s = (Some s, None)" by (rule parse_iso)
next
  assume "digits_between 1 2 dd \<and> digits_between 1 2 mm \<and> digits_between 4 4 yy"
  then show "parse_german_date_or_datetime (dd @ ''.'' @ mm @ ''.'' @ yy) =
        (if valid_date (nat_of_digits yy) (nat_of_digits mm) (nat_of_digits dd)
         then (Some (date_isoformat
                 \<lparr>year = nat_of_digits yy, month = nat_of_digits mm, day = nat_of_digits dd\<rparr>), None)
         else (None, None))"
    using parse_de_date by blast
next
  assume "digits_between 1 2 dd \<and> digits_between 1 2 mm \<and> digits_between 4 4 yy"
    and "ws \<noteq> [] \<and> list_all is_space ws \<and>
       digits_between 1 2 hh \<and> digits_between 2 2 mi \<and> digits_between 2 2 ss"
  then show "parse_german_date_or_datetime
             ((dd @ ''.'' @ mm @ ''.'' @ yy) @ ws @ (hh @ '':'' @ mi @ '':'' @ ss)) =
           (if valid_date (nat_of_digits yy) (nat_of_digits mm) (nat_of_digits dd) \<and>
               valid_time (nat_of_digits hh) (nat_of_digits mi) (nat_of_digits ss)
            then (Some (date_isoformat
                    \<lparr>year = nat_of_digits yy, month = nat_of_digits mm, day = nat_of_digits dd\<rparr>),
                  Some (datetime_isoformat
                    \<lparr>year = nat_of_digits yy, month = nat_of_digits mm, day = nat_of_digits dd,
                     hour = nat_of_digits hh, minute = nat_of_digits mi,
                     second = nat_of_digits ss\<rparr>))
            else (None, None))"
    using parse_de_datetime by blast
next
  assume "valid_date (nat_of_digits yy) (nat_of_digits mm) (nat_of_digits dd)"
  then show "match_iso_date (date_isoformat
           \<lparr>year = nat_of_digits yy, month = nat_of_digits mm, day = nat_of_digits dd\<rparr>)"
    by (rule date_isoformat_shape)
next
  assume "parse_german_date_or_datetime s \<noteq> (None, None)"
  then show "match_iso_date (strip s) \<or>
      (\<exists>dd mm yy. strip s = dd @ ''.'' @ mm @ ''.'' @ yy \<and>
         digits_between 1 2 dd \<and> digits_between 1 2 mm \<and> digits_between 4 4 yy \<and>
         valid_date (nat_of_digits yy) (nat_of_digits mm) (nat_of_digits dd)) \<or>
      (\<exists>dd mm yy ws hh mi ss.
         strip s = (dd @ ''.'' @ mm @ ''.'' @ yy) @ ws @ (hh @ '':'' @ mi @ '':'' @ ss) \<and>
         digits_between 1 2 dd \<and> digits_between 1 2 mm \<and> digits_between 4 4 yy \<and>
         ws \<noteq> [] \<and> list_all is_space ws \<and>
         digits_between 1 2 hh \<and> digits_between 2 2 mi \<and> digits_between 2 2 ss \<and>
         valid_date (nat_of_digits yy) (nat_of_digits mm) (nat_of_digits dd) \<and>
         valid_time (nat_of_digits hh) (nat_of_digits mi) (nat_of_digits ss))"
    by (rule parse_accepts_only)
qed

text \<open>
  The theorem at \<open>2025-12-18\<close>, \<open>16.12.2025\<close> and \<open>16.12.2025 12:08:59\<close>, the examples of
  the docstring.
\<close>

theorem parse_german_date_or_datetime_formats_witness:
  "match_iso_date ''2025-12-18'' \<and>
   parse_german_date_or_datetime ''2025-12-18'' = (Some ''2025-12-18'', None) \<and>
   parse_german_date_or_datetime ''2025-12-18'' \<noteq> (None, None) \<and>
   digits_between 1 2 ''16'' \<and> digits_between 1 2 ''12'' \<and> digits_between 4 4 ''2025'' \<and>
   valid_date 2025 12 16 \<and>
   parse_german_date_or_datetime ''16.12.2025'' = (Some ''2025-12-16'', None) \<and>
   '' '' \<noteq> [] \<and> list_all is_space '' '' \<and>
   digits_between 1 2 ''12'' \<and> digits_between 2 2 ''08'' \<and> digits_between 2 2 ''59'' \<and>
   valid_time 12 8 59 \<and>
   parse_german_date_or_datetime ''16.12.2025 12:08:59'' =
     (Some ''2025-12-16'', Some ''2025-12-16T12:08:59'') \<and>
   match_iso_date ''2025-12-16''"
proof -
  have h: "match_iso_date ''2025-12-18''" "digits_between 1 2 ''16''" "digits_between 1 2 ''12''"
    "digits_between 4 4 ''2025''" "list_all is_space '' ''" "digits_between 2 2 ''08''"
    "digits_between 2 2 ''59''" "valid_date 2025 12 16" "valid_time 12 8 59"
    by code_simp+
  have n: "nat_of_digits ''2025'' = 2025" "nat_of_digits ''12'' = 12" "nat_of_digits ''16'' = 16"
    "nat_of_digits ''08'' = 8" "nat_of_digits ''59'' = 59"
    by code_simp+
  have f: "date_isoformat \<lparr>year = 2025, month = 12, day = 16\<rparr> = ''2025-12-16''"
    "datetime_isoformat \<lparr>year = 2025, month = 12, day = 16, hour = 12, minute = 8, second = 59\<rparr> =
       ''2025-12-16T12:08:59''"
    "strip ''2025-12-18'' = ''2025-12-18''"
    by code_simp+
  from parse_german_date_or_datetime_formats
         [of "''2025-12-18''" "''16''" "''12''" "''2025''" "'' ''" "''12''" "''08''" "''59''"]
  show ?thesis using h n f by simp
qed

text \<open>
  C8 as stated fails. \<open>2025-99-99\<close> names no day, so it is no ISO date, and it is returned as
  the date all the same; \<open>1.2.2025\<close> has no two-digit day and month and is converted; and
  \<open>31.02.2025\<close> has the shape \<open>DD.MM.YYYY\<close> and is not converted.
\<close>

theorem parse_german_date_or_datetime_counterexample:
  "\<not> valid_date 2025 99 99 \<and>
   parse_german_date_or_datetime ''2025-99-99'' = (Some ''2025-99-99'', None) \<and>
   \<not> digits_between 2 2 ''1'' \<and>
   parse_german_date_or_datetime ''1.2.2025'' = (Some ''2025-02-01'', None) \<and>
   digits_between 2 2 ''31'' \<and> digits_between 2 2 ''02'' \<and> digits_between 4 4 ''2025'' \<and>
   parse_german_date_or_datetime ''31.02.2025'' = (None, None)"
  by code_simp

section \<open>Facts about the decimal parser\<close>




lemma digitpart_ne: "digitpart s \<Longrightarrow> s \<noteq> []"
  by auto





















subsection \<open>Claim C7\<close>




section \<open>Facts about the domain field mapper\<close>

lemma build_order_row_Inr:
  assumes "py_int (get_or_none proj ''ID'') = Inr n"
  shows "\<exists>row. build_order_row proj vf ps pl pm now = Inr row \<and> id' row = n \<and>
           parts_status row = (if ps \<noteq> [] then ps else str_or (dict_get vf ''E-Teile Status'') []) \<and>
           missing_parts row =
             missing_parts_flag (if ps \<noteq> [] then ps else str_or (dict_get vf ''E-Teile Status'') []) pl"
  using assms by (simp add: build_order_row_def Let_def)



lemma missing_parts_flag_cases:
  "missing_parts_flag st pl =
     (if (\<exists>l. pl = Some l \<and> (\<exists>p\<in>set l. is_missing p)) then 1
      else if re_ohne_eteile st then 0
      else if re_missing_status st then 1 else 0)"
  by (cases pl) (auto simp: missing_parts_flag_def Let_def list_ex_iff)

subsection \<open>Claim C9\<close>




subsection \<open>Claim C4\<close>

text \<open>
  C4, as amended. In the row that \<open>build_order_row\<close> returns, the parts status is the argument
  \<open>parts_status\<close>, or the field \<open>E-Teile Status\<close> when the argument is empty, and
  \<open>missing_parts\<close> is 0 or 1. It is 1 exactly when some row of the parts list has
  \<open>is_missing\<close> set, or the parts status does not say "ohne E-Teile" and matches the
  missing-keyword pattern. So the parts list has the last word: a status that says that no
  parts are involved gives 0 only if no row of the parts list is missing.
\<close>

theorem build_order_row_missing_parts:
  "build_order_row proj visual_fields ps pl pm now = Inr row \<longrightarrow>
     parts_status row = (if ps \<noteq> [] then ps else str_or (dict_get visual_fields ''E-Teile Status'') []) \<and>
     (missing_parts row = 0 \<or> missing_parts row = 1) \<and>
     (missing_parts row = 1 \<longleftrightarrow>
        (\<exists>l. pl = Some l \<and> (\<exists>p\<in>set l. is_missing p)) \<or>
        (\<not> re_ohne_eteile (parts_status row) \<and> re_missing_status (parts_status row))) \<and>
     (re_ohne_eteile (parts_status row) \<and> \<not> (\<exists>l. pl = Some l \<and> (\<exists>p\<in>set l. is_missing p)) \<longrightarrow>
        missing_parts row = 0)"
proof
  assume b: "build_order_row proj visual_fields ps pl pm now = Inr row"
  then obtain n where n: "py_int (get_or_none proj ''ID'') = Inr n"
    by (cases "py_int (get_or_none proj ''ID'')") (auto simp: build_order_row_def)
  let ?st = "if ps \<noteq> [] then ps else str_or (dict_get visual_fields ''E-Teile Status'') []"
  from build_order_row_Inr[OF n, of visual_fields ps pl pm now] b
  have st: "parts_status row = ?st" and m: "missing_parts row = missing_parts_flag ?st pl"
    by auto
  show "parts_status row = ?st \<and>
     (missing_parts row = 0 \<or> missing_parts row = 1) \<and>
     (missing_parts row = 1 \<longleftrightarrow>
        (\<exists>l. pl = Some l \<and> (\<exists>p\<in>set l. is_missing p)) \<or>
        (\<not> re_ohne_eteile (parts_status row) \<and> re_missing_status (parts_status row))) \<and>
     (re_ohne_eteile (parts_status row) \<and> \<not> (\<exists>l. pl = Some l \<and> (\<exists>p\<in>set l. is_missing p)) \<longrightarrow>
        missing_parts row = 0)"
    unfolding m st[symmetric] missing_parts_flag_cases using st by simp
qed

text \<open>
  The theorem at the status \<open>Ohne E-Teile\<close>, given as the argument and with no parts list:
  the flag is 0.
\<close>

theorem build_order_row_missing_parts_witness:
  "(\<exists>row. build_order_row [(''ID'', PInt 1)] [] ''Ohne E-Teile'' None None [] = Inr row \<and>
      parts_status row = ''Ohne E-Teile'' \<and> re_ohne_eteile (parts_status row) \<and>
      missing_parts row = 0)"
proof -
  have "py_int (get_or_none [(''ID'', PInt 1)] ''ID'') = Inr 1"
    by (simp add: get_or_none_def dict_get_def)
  from build_order_row_Inr[OF this, of "[]" "''Ohne E-Teile''" None None "[]"]
  obtain row where r: "build_order_row [(''ID'', PInt 1)] [] ''Ohne E-Teile'' None None [] = Inr row"
    by blast
  have o: "re_ohne_eteile ''Ohne E-Teile''" by code_simp
  from build_order_row_missing_parts[of "[(''ID'', PInt 1)]" "[]" "''Ohne E-Teile''" None None "[]" row] r o
  have "parts_status row = ''Ohne E-Teile'' \<and> re_ohne_eteile (parts_status row) \<and>
      missing_parts row = 0" by simp
  with r show ?thesis by blast
qed

text \<open>
  C4 as stated fails: with the status \<open>Ohne E-Teile\<close> and a parts list that holds a missing
  row, the flag is 1.
\<close>

theorem build_order_row_missing_parts_counterexample:
  "re_ohne_eteile ''Ohne E-Teile'' \<and>
   (\<exists>row. build_order_row [(''ID'', PInt 1)] [] ''Ohne E-Teile''
             (Some [(attr_part ''A1'')\<lparr>is_missing := True\<rparr>]) None [] = Inr row \<and>
      parts_status row = ''Ohne E-Teile'' \<and> missing_parts row = 1)"
proof -
  have o: "re_ohne_eteile ''Ohne E-Teile''" by code_simp
  have "\<exists>row. build_order_row [(''ID'', PInt 1)] [] ''Ohne E-Teile''
             (Some [(attr_part ''A1'')\<lparr>is_missing := True\<rparr>]) None [] = Inr row \<and>
      parts_status row = ''Ohne E-Teile'' \<and> missing_parts row = 1"
    by (simp add: build_order_row_def get_or_none_def dict_get_def Let_def missing_parts_flag_def)
  with o show ?thesis by simp
qed

subsection \<open>Claim C6\<close>

text \<open>
  C6 is right about the first path and wrong about the second. With two generic-table rows
  that share part number and description and differ in the quantity, the list returned holds
  one entry, and it is the second row, not the first one. The same two rows on the path of
  the parts table give the first row.
\<close>

theorem parse_parts_from_html_generic_keeps_last:
  "map qty (fst (parse_parts_from_html
     \<lparr>bs4 = True, table_rows = [], table_meta = [],
      generic_rows =
        [[(''Teilenummer'', ''A1''), (''Bezeichnung'', ''Bolt''), (''Menge'', ''1'')],
         [(''Teilenummer'', ''A1''), (''Bezeichnung'', ''Bolt''), (''Menge'', ''2'')]],
      attr_matches = []\<rparr>)) = [Some (Finite 2)] \<and>
   map qty (fst (parse_parts_from_html
     \<lparr>bs4 = True,
      table_rows =
        [\<lparr>part_no = Some ''A1'', description = Some ''Bolt'', lead_no = Some [], order_no = Some [],
          row_id = None, part_id = None, qty = Some (Finite 1), price_each = None,
          price_total = None, status = Some [], status_code = Some [], status_icon = Some [],
          order_date = Some [], delivery_date = Some [], eta_date = Some [],
          is_missing = False, is_to_order = False, is_ordered = False, is_delivered = False,
          is_backorder = False, is_mandatory = False, is_price_checked = False, raw = JObj []\<rparr>,
         \<lparr>part_no = Some ''A1'', description = Some ''Bolt'', lead_no = Some [], order_no = Some [],
          row_id = None, part_id = None, qty = Some (Finite 2), price_each = None,
          price_total = None, status = Some [], status_code = Some [], status_icon = Some [],
          order_date = Some [], delivery_date = Some [], eta_date = Some [],
          is_missing = False, is_to_order = False, is_ordered = False, is_delivered = False,
          is_backorder = False, is_mandatory = False, is_price_checked = False, raw = JObj []\<rparr>],
      table_meta = [], generic_rows = [], attr_matches = []\<rparr>)) = [Some (Finite 1)]"
  by (simp add: parse_parts_from_html_def List.map_filter_def generic_part_def dict_get_def
        str_or_def uniq_last_def uniq_first_def part_key_def Let_def
        to_float_de_def py_float_def strip_def is_space_def replace_char_def split_sign_def
        lower_def lower_char_def is_exp_char_def parse_number_def digits_value_def
        nat_of_digits_def digit_val_def is_digit_def scale10_def)

section \<open>Facts about the label extractors\<close>












subsection \<open>Claim C5\<close>




section \<open>Facts about the persistence layer\<close>










lemma db_replace_parts_other_fields:
  "orders (db_replace_parts c oid ps) = orders c"
  "employees (db_replace_parts c oid ps) = employees c"
  "order_sections (db_replace_parts c oid ps) = order_sections c"
  by (simp_all add: db_replace_parts_def)










lemma db_upsert_sections_other_fields:
  "orders (db_upsert_sections c oid secs now) = orders c"
  "employees (db_upsert_sections c oid secs now) = employees c"
  "parts (db_upsert_sections c oid secs now) = parts c"
  by (simp_all add: db_upsert_sections_def)






lemma db_upsert_order_other_fields:
  "parts (db_upsert_order c row) = parts c"
  "employees (db_upsert_order c row) = employees c"
  "order_sections (db_upsert_order c row) = order_sections c"
  by (simp_all add: db_upsert_order_def)








lemma db_upsert_employees_other_fields:
  "orders (db_upsert_employees c emp) = orders c"
  "parts (db_upsert_employees c emp) = parts c"
  "order_sections (db_upsert_employees c emp) = order_sections c"
  by (simp_all add: db_upsert_employees_def)

section \<open>Facts about the writes of one result\<close>










subsection \<open>Claim C1\<close>




section \<open>Facts about the sync orchestrator\<close>



lemma sync_one_raises:
  assumes "py_int (get_or_none (job_proj j) ''ID'') = Inl e"
  shows "sync_one args j = Inl e"
  using assms by (simp add: sync_one_def)








subsection \<open>Claim C2\<close>



section \<open>Facts about the query engine\<close>

lemma hyphen_not_alnum: "\<not> is_alnum (CHR ''-'')" "\<not> is_alnum (CHR 0x22)" "CHR 0x22 \<noteq> CHR ''-''"
  by (simp_all add: is_alnum_def is_upper_az_def is_lower_az_def is_digit_def)

lemma hyphenated_snoc: "hyphenated t \<Longrightarrow> is_alnum c \<Longrightarrow> hyphenated (t @ [c])"
  by (induction t rule: hyphenated.induct) (auto simp: hyphen_not_alnum)

lemma hyphenated_snoc2: "hyphenated t \<Longrightarrow> is_alnum c \<Longrightarrow> hyphenated (t @ [CHR ''-'', c])"
  by (induction t rule: hyphenated.induct) (auto simp: hyphen_not_alnum)

lemma hyphenated_chars: "hyphenated t \<Longrightarrow> c \<in> set t \<Longrightarrow> is_alnum c \<or> c = CHR ''-''"
  by (induction t rule: hyphenated.induct) (auto split: if_splits)

lemma hyphenated_ne: "hyphenated t \<Longrightarrow> t \<noteq> []"
  by auto

lemma hyphenated_hd: "hyphenated t \<Longrightarrow> is_alnum (hd t)"
  by (induction t rule: hyphenated.induct) auto

lemma hyphenated_last: "hyphenated t \<Longrightarrow> is_alnum (last t)"
  by (induction t rule: hyphenated.induct) (auto split: if_splits)

lemma scan_tokens_shape:
  assumes "cur = [] \<or> hyphenated cur \<or>
           (\<exists>t. cur = t @ [CHR ''-''] \<and> hyphenated t \<and> s \<noteq> [] \<and> is_alnum (hd s))"
    and "tok \<in> set (scan_tokens cur s)"
  shows "hyphenated tok"
  using assms
proof (induction s arbitrary: cur)
  case Nil
  then show ?case by (auto split: if_splits)
next
  case (Cons c cs)
  show ?case
  proof (cases "is_alnum c")
    case True
    have inv: "cur @ [c] = [] \<or> hyphenated (cur @ [c]) \<or>
           (\<exists>t. cur @ [c] = t @ [CHR ''-''] \<and> hyphenated t \<and> cs \<noteq> [] \<and> is_alnum (hd cs))"
      using Cons.prems(1) True by (auto simp: hyphenated_snoc hyphenated_snoc2)
    from Cons.prems(2) True have "tok \<in> set (scan_tokens (cur @ [c]) cs)" by simp
    from Cons.IH[OF inv this] show ?thesis .
  next
    case False
    with Cons.prems(1) have cur: "cur = [] \<or> hyphenated cur" by auto
    show ?thesis
    proof (cases "c = CHR ''-'' \<and> cur \<noteq> [] \<and> cs \<noteq> [] \<and> is_alnum (hd cs)")
      case True
      with cur have inv: "cur @ [c] = [] \<or> hyphenated (cur @ [c]) \<or>
           (\<exists>t. cur @ [c] = t @ [CHR ''-''] \<and> hyphenated t \<and> cs \<noteq> [] \<and> is_alnum (hd cs))"
        by auto
      from Cons.prems(2) False True have "tok \<in> set (scan_tokens (cur @ [c]) cs)" by simp
      from Cons.IH[OF inv this] show ?thesis .
    next
      case nh: False
      have inv: "[] = [] \<or> hyphenated [] \<or>
           (\<exists>t. [] = t @ [CHR ''-''] \<and> hyphenated t \<and> cs \<noteq> [] \<and> is_alnum (hd cs))" by simp
      from Cons.prems(2) False nh have "tok \<in> set (scan_tokens [] cs) \<or> (cur \<noteq> [] \<and> tok = cur)"
        by (auto split: if_splits)
      then show ?thesis
      proof
        assume "tok \<in> set (scan_tokens [] cs)"
        from Cons.IH[OF inv this] show ?thesis .
      next
        assume "cur \<noteq> [] \<and> tok = cur"
        with cur show ?thesis by auto
      qed
    qed
  qed
qed

lemma tokenize_shape: "tok \<in> set (tokenize s) \<Longrightarrow> hyphenated tok"
  unfolding tokenize_def by (rule scan_tokens_shape[of "[]"]) simp_all

lemma scan_tokens_substring:
  "tok \<in> set (scan_tokens cur s) \<Longrightarrow> \<exists>pre post. cur @ s = pre @ tok @ post"
proof (induction s arbitrary: cur)
  case Nil
  then show ?case by (auto split: if_splits intro: exI[of _ "[]"])
next
  case (Cons c cs)
  from Cons.prems consider "tok \<in> set (scan_tokens (cur @ [c]) cs)"
    | "tok \<in> set (scan_tokens [] cs)" | "tok = cur"
    by (auto split: if_splits)
  then show ?case
  proof cases
    case 1
    from Cons.IH[OF 1] show ?thesis by simp
  next
    case 2
    from Cons.IH[OF 2] obtain pre post where "cs = pre @ tok @ post" by auto
    then have "cur @ c # cs = (cur @ c # pre) @ tok @ post" by simp
    then show ?thesis by blast
  next
    case 3
    then have "cur @ c # cs = [] @ tok @ (c # cs)" by simp
    then show ?thesis by blast
  qed
qed

lemma tokenize_substring: "tok \<in> set (tokenize s) \<Longrightarrow> \<exists>pre post. s = pre @ tok @ post"
  unfolding tokenize_def using scan_tokens_substring[of tok "[]" s] by simp

lemma tokenize_no_quote: "tok \<in> set (tokenize s) \<Longrightarrow> CHR 0x22 \<notin> set tok"
  using tokenize_shape[of tok s] hyphenated_chars[of tok "CHR 0x22"] hyphen_not_alnum by auto

lemma split_on_snoc_sep: "sep \<notin> set a \<Longrightarrow> split_on sep (a @ [sep]) = [a, []]"
  using split_on_append[of sep a "[]"] by simp

lemma quoted_phrases_aux:
  assumes "\<forall>t\<in>set ts. CHR 0x22 \<notin> set t" "ts \<noteq> []" "CHR 0x22 \<notin> set pre"
  shows "odds (split_on (CHR 0x22) (pre @ fts_query ts)) = ts"
  using assms
proof (induction ts arbitrary: pre)
  case Nil
  then show ?case by simp
next
  case (Cons t ts)
  from Cons.prems have t: "CHR 0x22 \<notin> set t" by simp
  show ?case
  proof (cases ts)
    case Nil
    have "pre @ fts_query [t] = pre @ CHR 0x22 # (t @ [CHR 0x22])"
      by (simp add: fts_query_def quote_token_def)
    then have "split_on (CHR 0x22) (pre @ fts_query [t]) = [pre, t, []]"
      using Cons.prems(3) t by (simp add: split_on_append split_on_snoc_sep)
    then show ?thesis using Nil by simp
  next
    case (Cons t' r)
    have "pre @ fts_query (t # t' # r) =
          pre @ CHR 0x22 # (t @ CHR 0x22 # ('' AND '' @ fts_query (t' # r)))"
      by (simp add: fts_query_def quote_token_def)
    moreover have "split_on (CHR 0x22) (pre @ CHR 0x22 # X) = pre # split_on (CHR 0x22) X" for X
      using Cons.prems(3) by (rule split_on_append)
    moreover have "split_on (CHR 0x22) (t @ CHR 0x22 # Y) = t # split_on (CHR 0x22) Y" for Y
      using t by (rule split_on_append)
    ultimately have "split_on (CHR 0x22) (pre @ fts_query (t # t' # r)) =
          pre # t # split_on (CHR 0x22) ('' AND '' @ fts_query (t' # r))"
      by (simp only:)
    moreover have "odds (split_on (CHR 0x22) ('' AND '' @ fts_query ts)) = ts"
      using Cons.prems(1) Cons by (intro Cons.IH) auto
    ultimately show ?thesis using Cons by simp
  qed
qed

lemma quoted_phrases_fts_query:
  "\<forall>t\<in>set ts. CHR 0x22 \<notin> set t \<Longrightarrow> quoted_phrases (fts_query ts) = ts"
proof (cases ts)
  case Nil
  then show ?thesis by (simp add: quoted_phrases_def fts_query_def)
next
  case (Cons t r)
  assume "\<forall>t\<in>set ts. CHR 0x22 \<notin> set t"
  from quoted_phrases_aux[OF this, of "[]"] Cons show ?thesis by (simp add: quoted_phrases_def)
qed

end
